theory Spec2Isabelle
  imports Main "HOL-Library.Signed_Division" "HOL-Library.AList"
    "HOL-Library.Code_Target_Numeral"
begin

section \<open>JavaScript values\<close>

text \<open>
  The adapter manipulates untyped JavaScript values: the provider's request objects, the
  parsed typed data, the page-global token configuration and the header collections of
  outgoing requests.  A value is modelled structurally.  Strings are sequences of 8-bit
  code units.  A Number is an integer (\<open>JNum\<close>), \<open>JNaN\<close> or an infinity; Numbers
  with a fractional part are left out of the model.  An object is its list of own
  properties in enumeration order.  A native \<open>Headers\<close> instance carries its own (expando)
  properties and, separately, its header list: the bracket access \<open>h['X-PAYMENT']\<close> reads
  a property, never the header list.
\<close>

datatype jv =
    JUndef
  | JNull
  | JBool bool
  | JNum int
  | JNaN
  | JInf bool
  | JStr string
  | JArr "jv list"
  | JObj "(string \<times> jv) list"
  | JHeaders "(string \<times> jv) list" "(string \<times> string) list"

text \<open>What a \<open>throw\<close> or a rejected promise carries.\<close>

datatype exn = TypeError | SyntaxError | RangeError | Thrown jv

type_synonym 'a res = "exn + 'a"

subsection \<open>Digits\<close>

definition digit_char :: "nat \<Rightarrow> char" where
  "digit_char n = ''0123456789abcdef'' ! n"

definition digit_val :: "char \<Rightarrow> nat option" where
  "digit_val c =
     (let k = (of_char c :: nat) in
      if 48 \<le> k \<and> k \<le> 57 then Some (k - 48)
      else if 97 \<le> k \<and> k \<le> 102 then Some (k - 87)
      else if 65 \<le> k \<and> k \<le> 70 then Some (k - 55)
      else None)"

definition is_digit :: "nat \<Rightarrow> char \<Rightarrow> bool" where
  "is_digit b c = (case digit_val c of None \<Rightarrow> False | Some v \<Rightarrow> v < b)"

text \<open>\<open>BigInt.prototype.toString(radix)\<close> on a non-negative value, for radix 10 or 16.\<close>

function nat_to_radix :: "nat \<Rightarrow> nat \<Rightarrow> string" where
  "nat_to_radix b n =
     (if b < 2 \<or> n < b then [digit_char n]
      else nat_to_radix b (n div b) @ [digit_char (n mod b)])"
  by pat_completeness auto
termination
  by (relation "measure snd") (auto simp: not_less intro: div_less_dividend)

declare nat_to_radix.simps [simp del]

definition int_to_radix :: "nat \<Rightarrow> int \<Rightarrow> string" where
  "int_to_radix b k =
     (if k < 0 then CHR ''-'' # nat_to_radix b (nat (- k)) else nat_to_radix b (nat k))"

text \<open>The value of a digit string read most significant digit first.\<close>

definition radix_val :: "nat \<Rightarrow> string \<Rightarrow> nat" where
  "radix_val b s =
     foldl (\<lambda>acc c. acc * b + (case digit_val c of None \<Rightarrow> 0 | Some v \<Rightarrow> v)) 0 s"

subsection \<open>String primitives\<close>

text \<open>The white space that \<open>trim\<close>, \<open>parseInt\<close> and \<open>BigInt\<close> skip, within the 8-bit range.\<close>

definition js_whitespace :: "char \<Rightarrow> bool" where
  "js_whitespace c = ((of_char c :: nat) \<in> {9, 10, 11, 12, 13, 32, 160})"

definition trim_start :: "string \<Rightarrow> string" where
  "trim_start s = dropWhile js_whitespace s"

definition trim :: "string \<Rightarrow> string" where
  "trim s = rev (dropWhile js_whitespace (rev (dropWhile js_whitespace s)))"

text \<open>\<open>s.padStart(n, '0')\<close>: a string already \<open>n\<close> long or longer is returned as it is.\<close>

definition padStart :: "nat \<Rightarrow> string \<Rightarrow> string" where
  "padStart n s = replicate (n - length s) CHR ''0'' @ s"

text \<open>\<open>s.replace(/0+$/, '')\<close>.\<close>

definition strip_trailing_zeros :: "string \<Rightarrow> string" where
  "strip_trailing_zeros s = rev (dropWhile (\<lambda>c. c = CHR ''0'') (rev s))"

definition join_with :: "string \<Rightarrow> string list \<Rightarrow> string" where
  "join_with sep xs = (case xs of [] \<Rightarrow> [] | y # ys \<Rightarrow> foldl (\<lambda>acc z. acc @ sep @ z) y ys)"

subsection \<open>Conversions\<close>

text \<open>
  \<open>ToString\<close>.  An array joins the strings of its elements with commas, \<open>null\<close> and
  \<open>undefined\<close> elements giving the empty string.  A Number is printed in plain decimal
  notation, which is what the host prints for magnitudes below \<open>10\<^sup>2\<^sup>1\<close>.
\<close>

fun to_str :: "jv \<Rightarrow> string" where
  "to_str JUndef = ''undefined''"
| "to_str JNull = ''null''"
| "to_str (JBool b) = (if b then ''true'' else ''false'')"
| "to_str (JNum n) = int_to_radix 10 n"
| "to_str JNaN = ''NaN''"
| "to_str (JInf b) = (if b then ''Infinity'' else ''-Infinity'')"
| "to_str (JStr s) = s"
| "to_str (JArr xs) =
     join_with '','' (map (\<lambda>x. if x = JUndef \<or> x = JNull then [] else to_str x) xs)"
| "to_str (JObj ps) = ''[object Object]''"
| "to_str (JHeaders ps hs) = ''[object Headers]''"

text \<open>\<open>ToBoolean\<close>, as used by \<open>if\<close>, \<open>!\<close>, \<open>||\<close> and \<open>&&\<close>.\<close>

fun truthy :: "jv \<Rightarrow> bool" where
  "truthy JUndef = False"
| "truthy JNull = False"
| "truthy (JBool b) = b"
| "truthy (JNum n) = (n \<noteq> 0)"
| "truthy JNaN = False"
| "truthy (JStr s) = (s \<noteq> [])"
| "truthy _ = True"

text \<open>\<open>a || b\<close> on values.\<close>

definition jor :: "jv \<Rightarrow> jv \<Rightarrow> jv" where
  "jor a b = (if truthy a then a else b)"

text \<open>
  \<open>StringToBigInt\<close>: surrounding white space is dropped, the empty string is zero, a
  radix prefix takes no sign, and anything else that is not a digit string is a
  \<open>SyntaxError\<close>.
\<close>

definition parse_digits :: "nat \<Rightarrow> string \<Rightarrow> int res" where
  "parse_digits b ds =
     (if ds \<noteq> [] \<and> list_all (is_digit b) ds then Inr (int (radix_val b ds))
      else Inl SyntaxError)"

definition string_to_bigint :: "string \<Rightarrow> int res" where
  "string_to_bigint s0 =
     (let s = trim s0 in
      if s = [] then Inr 0
      else if take 2 s = ''0x'' \<or> take 2 s = ''0X'' then parse_digits 16 (drop 2 s)
      else if take 2 s = ''0o'' \<or> take 2 s = ''0O'' then parse_digits 8 (drop 2 s)
      else if take 2 s = ''0b'' \<or> take 2 s = ''0B'' then parse_digits 2 (drop 2 s)
      else if hd s = CHR ''-'' then map_sum id uminus (parse_digits 10 (tl s))
      else if hd s = CHR ''+'' then parse_digits 10 (tl s)
      else parse_digits 10 s)"

text \<open>
  \<open>BigInt(v)\<close>: \<open>undefined\<close> and \<open>null\<close> are a \<open>TypeError\<close>, a Number that is not a
  finite integer is a \<open>RangeError\<close>, an object is converted through its string.
\<close>

fun to_bigint :: "jv \<Rightarrow> int res" where
  "to_bigint JUndef = Inl TypeError"
| "to_bigint JNull = Inl TypeError"
| "to_bigint (JBool b) = Inr (if b then 1 else 0)"
| "to_bigint (JNum n) = Inr n"
| "to_bigint JNaN = Inl RangeError"
| "to_bigint (JInf b) = Inl RangeError"
| "to_bigint (JStr s) = string_to_bigint s"
| "to_bigint v = string_to_bigint (to_str v)"

text \<open>
  A Number holds a double.  An integer of magnitude below \<open>2\<^sup>5\<^sup>3\<close> is held exactly; a
  larger one is rounded to the nearest double, ties to the even significand, and to an
  infinity from \<open>2\<^sup>1\<^sup>0\<^sup>2\<^sup>4\<close> on.
\<close>

function bit_length :: "nat \<Rightarrow> nat" where
  "bit_length n = (if n = 0 then 0 else Suc (bit_length (n div 2)))"
  by pat_completeness auto
termination
  by (relation "measure id") auto

declare bit_length.simps [simp del]

definition to_double :: "int \<Rightarrow> jv" where
  "to_double k =
     (let m = nat \<bar>k\<bar> in
      if m < 2 ^ 53 then JNum k
      else
        let e = bit_length m - 53;
            q = m div 2 ^ e;
            r = m mod 2 ^ e;
            h = 2 ^ (e - 1);
            q' = (if h < r \<or> (r = h \<and> odd q) then q + 1 else q);
            v = q' * 2 ^ e
        in if 2 ^ 1024 \<le> v then JInf (0 < k) else JNum (sgn k * int v))"

text \<open>
  \<open>parseInt(v, 16)\<close>: leading white space, a sign and a \<open>0x\<close> prefix are skipped, the
  longest run of hexadecimal digits is read, and no digit at all gives \<open>NaN\<close>.
\<close>

definition parseInt16 :: "jv \<Rightarrow> jv" where
  "parseInt16 v =
     (let s = trim_start (to_str v);
          neg = (s \<noteq> [] \<and> hd s = CHR ''-'');
          s1 = (if s \<noteq> [] \<and> (hd s = CHR ''-'' \<or> hd s = CHR ''+'') then tl s else s);
          s2 = (if take 2 s1 = ''0x'' \<or> take 2 s1 = ''0X'' then drop 2 s1 else s1);
          ds = takeWhile (is_digit 16) s2
      in if ds = [] then JNaN
         else to_double ((if neg then - 1 else 1) * int (radix_val 16 ds)))"

subsection \<open>Properties\<close>

definition lookup :: "(string \<times> jv) list \<Rightarrow> string \<Rightarrow> jv" where
  "lookup ps k = (case map_of ps k of None \<Rightarrow> JUndef | Some v \<Rightarrow> v)"

text \<open>
  \<open>v.k\<close> for a property name \<open>k\<close>.  Reading a property of \<open>undefined\<close> or \<open>null\<close> throws.
  The names the adapter reads are never \<open>length\<close> nor the name of a built-in method, so
  on a primitive or an array the result is \<open>undefined\<close>.
\<close>

fun get :: "jv \<Rightarrow> string \<Rightarrow> jv res" where
  "get JUndef k = Inl TypeError"
| "get JNull k = Inl TypeError"
| "get (JObj ps) k = Inr (lookup ps k)"
| "get (JHeaders ps hs) k = Inr (lookup ps k)"
| "get v k = Inr JUndef"

text \<open>\<open>v[i]\<close> for an index \<open>i\<close>.\<close>

fun get_index :: "jv \<Rightarrow> nat \<Rightarrow> jv res" where
  "get_index JUndef i = Inl TypeError"
| "get_index JNull i = Inl TypeError"
| "get_index (JArr xs) i = Inr (if i < length xs then xs ! i else JUndef)"
| "get_index (JStr s) i = Inr (if i < length s then JStr [s ! i] else JUndef)"
| "get_index (JObj ps) i = Inr (lookup ps (nat_to_radix 10 i))"
| "get_index (JHeaders ps hs) i = Inr (lookup ps (nat_to_radix 10 i))"
| "get_index v i = Inr JUndef"

text \<open>\<open>v?.k\<close> and \<open>v?.[i]\<close>.\<close>

definition opt_get :: "jv \<Rightarrow> string \<Rightarrow> jv" where
  "opt_get v k = (case get v k of Inl e \<Rightarrow> JUndef | Inr x \<Rightarrow> x)"

definition opt_index :: "jv \<Rightarrow> nat \<Rightarrow> jv" where
  "opt_index v i = (case get_index v i of Inl e \<Rightarrow> JUndef | Inr x \<Rightarrow> x)"

text \<open>
  \<open>o[k] = v\<close> in strict mode: an existing property keeps its place, a new one goes last,
  and a primitive receiver throws.  Arrays never reach an assignment below.
\<close>

fun set_prop :: "jv \<Rightarrow> string \<Rightarrow> jv \<Rightarrow> jv res" where
  "set_prop (JObj ps) k v = Inr (JObj (AList.update k v ps))"
| "set_prop (JHeaders ps hs) k v = Inr (JHeaders (AList.update k v ps) hs)"
| "set_prop w k v = Inl TypeError"

definition res_bind :: "'a res \<Rightarrow> ('a \<Rightarrow> 'b res) \<Rightarrow> 'b res" where
  "res_bind r f = (case r of Inl e \<Rightarrow> Inl e | Inr x \<Rightarrow> f x)"

subsection \<open>Header collections\<close>

definition ascii_lower :: "char \<Rightarrow> char" where
  "ascii_lower c =
     (let k = (of_char c :: nat) in if 65 \<le> k \<and> k \<le> 90 then char_of (k + 32) else c)"

definition lower :: "string \<Rightarrow> string" where
  "lower s = map ascii_lower s"

text \<open>
  \<open>Headers.prototype.set\<close>: names match without regard to case; the first header of that
  name takes the value and the others are removed, or the header is appended.
\<close>

fun headers_set :: "(string \<times> string) list \<Rightarrow> string \<Rightarrow> string \<Rightarrow> (string \<times> string) list" where
  "headers_set [] n v = [(n, v)]"
| "headers_set ((n', v') # hs) n v =
     (if lower n' = lower n then (n', v) # filter (\<lambda>p. lower (fst p) \<noteq> lower n) hs
      else (n', v') # headers_set hs n v)"

subsection \<open>Serialisation\<close>

text \<open>
  \<open>JSON.stringify\<close>.  \<open>undefined\<close> has no serialisation: a property holding it is left
  out and an array element holding it is written \<open>null\<close>, as are \<open>NaN\<close> and the
  infinities.  Quotes, backslashes and control characters are escaped.
\<close>

definition json_escape :: "char \<Rightarrow> string" where
  "json_escape c =
     (let k = (of_char c :: nat) in
      if k = 34 then [CHR 0x5C, CHR 0x22]
      else if k = 92 then [CHR 0x5C, CHR 0x5C]
      else if k = 8 then [CHR 0x5C, CHR ''b'']
      else if k = 12 then [CHR 0x5C, CHR ''f'']
      else if k = 10 then [CHR 0x5C, CHR ''n'']
      else if k = 13 then [CHR 0x5C, CHR ''r'']
      else if k = 9 then [CHR 0x5C, CHR ''t'']
      else if k < 32 then [CHR 0x5C, CHR ''u'', CHR ''0'', CHR ''0'', digit_char (k div 16), digit_char (k mod 16)]
      else [c])"

definition json_quote :: "string \<Rightarrow> string" where
  "json_quote s = CHR 0x22 # concat (map json_escape s) @ [CHR 0x22]"

fun stringify :: "jv \<Rightarrow> string option" where
  "stringify JUndef = None"
| "stringify JNull = Some ''null''"
| "stringify (JBool b) = Some (if b then ''true'' else ''false'')"
| "stringify (JNum n) = Some (int_to_radix 10 n)"
| "stringify JNaN = Some ''null''"
| "stringify (JInf b) = Some ''null''"
| "stringify (JStr s) = Some (json_quote s)"
| "stringify (JArr xs) =
     Some (''['' @ join_with '','' (map (\<lambda>x. case stringify x of None \<Rightarrow> ''null'' | Some t \<Rightarrow> t) xs) @ '']'')"
| "stringify (JObj ps) =
     Some (''{'' @ join_with '',''
        (concat (map (\<lambda>p. case stringify (snd p) of None \<Rightarrow> [] | Some t \<Rightarrow> [json_quote (fst p) @ '':'' @ t]) ps))
        @ ''}'')"
| "stringify (JHeaders ps hs) =
     Some (''{'' @ join_with '',''
        (concat (map (\<lambda>p. case stringify (snd p) of None \<Rightarrow> [] | Some t \<Rightarrow> [json_quote (fst p) @ '':'' @ t]) ps))
        @ ''}'')"

definition JSON_stringify :: "jv \<Rightarrow> jv" where
  "JSON_stringify v = (case stringify v of None \<Rightarrow> JUndef | Some t \<Rightarrow> JStr t)"

text \<open>\<open>btoa\<close>: base64 of the code units, three at a time, padded with \<open>=\<close>.\<close>

definition b64_char :: "nat \<Rightarrow> char" where
  "b64_char n = ''ABCDEFGHIJKLMNOPQRSTUVWXYZabcdefghijklmnopqrstuvwxyz0123456789+/'' ! n"

fun b64_encode :: "nat list \<Rightarrow> string" where
  "b64_encode [] = []"
| "b64_encode [a] =
     [b64_char (a div 4), b64_char (a mod 4 * 16), CHR ''='', CHR ''='']"
| "b64_encode [a, b] =
     [b64_char (a div 4), b64_char (a mod 4 * 16 + b div 16), b64_char (b mod 16 * 4), CHR ''='']"
| "b64_encode (a # b # c # rest) =
     [b64_char (a div 4), b64_char (a mod 4 * 16 + b div 16),
      b64_char (b mod 16 * 4 + c div 64), b64_char (c mod 64)] @ b64_encode rest"

definition btoa :: "string \<Rightarrow> string" where
  "btoa s = b64_encode (map of_char s)"

section \<open>Token amount formatter\<close>

text \<open>
  \<^verbatim>\<open>
  function formatAmount(atomic, decimals) {
    const d = BigInt(10) ** BigInt(decimals);
    const n = BigInt(atomic);
    const i = (n / d).toString();
    const f = (n % d).toString().padStart(decimals, '0').slice(0, 4).replace(/0+$/, '');
    return f ? `${i}.${f}` : i;
  }
  \<close>
  BigInt division truncates towards zero and the remainder takes the sign of the
  dividend (\<open>sdiv\<close>, \<open>smod\<close>).  A negative exponent makes \<open>**\<close> throw a
  \<open>RangeError\<close>.  \<open>padStart\<close> is reached only after \<open>BigInt(decimals)\<close> has produced
  a non-negative integer, and then the length it converts \<open>decimals\<close> to is that integer.
\<close>

definition formatAmount :: "jv \<Rightarrow> jv \<Rightarrow> string res" where
  "formatAmount atomic decimals =
     (case to_bigint decimals of
        Inl e \<Rightarrow> Inl e
      | Inr dd \<Rightarrow>
          if dd < 0 then Inl RangeError
          else
            let d = 10 ^ nat dd in
            (case to_bigint atomic of
               Inl e \<Rightarrow> Inl e
             | Inr n \<Rightarrow>
                 let i = int_to_radix 10 (n sdiv d);
                     f = strip_trailing_zeros
                           (take 4 (padStart (nat dd) (int_to_radix 10 (n smod d))))
                 in Inr (if f \<noteq> [] then i @ ''.'' @ f else i)))"

text \<open>
  The reading of the contract: the remainder written with exactly \<open>d\<close> decimal digits,
  most significant first.
\<close>

fun fixed_digits :: "nat \<Rightarrow> nat \<Rightarrow> string" where
  "fixed_digits 0 r = []"
| "fixed_digits (Suc d) r = fixed_digits d (r div 10) @ [digit_char (r mod 10)]"

definition amount_text :: "nat \<Rightarrow> nat \<Rightarrow> string" where
  "amount_text a d =
     (let ip = nat_to_radix 10 (a div 10 ^ d);
          fp = strip_trailing_zeros (take 4 (fixed_digits d (a mod 10 ^ d)))
      in if fp = [] then ip else ip @ ''.'' @ fp)"

text \<open>
  The reader of the round-trip property: the text before the decimal point times
  \<open>10\<^sup>d\<close>, plus the digits after it scaled to atomic units, that is, padded on the
  right to \<open>d\<close> digits.
\<close>

definition parse_amount :: "string \<Rightarrow> nat \<Rightarrow> nat" where
  "parse_amount s d =
     (let ip = takeWhile (\<lambda>c. c \<noteq> CHR ''.'') s;
          fp = drop 1 (dropWhile (\<lambda>c. c \<noteq> CHR ''.'') s)
      in radix_val 10 ip * 10 ^ d
         + radix_val 10 (fp @ replicate (d - length fp) CHR ''0''))"

section \<open>The page, the wallet and the network\<close>

text \<open>
  The adapter runs against a wallet provider, the page's \<open>fetch\<close>, the JSON parser and a
  clock.  The wallet, the network and the clock share a state of their own, of which the
  model knows nothing.  A call of either original entry point resolves with a value
  (\<open>Inr\<close>) or rejects with what it throws (\<open>Inl\<close>).  The parser is the host's
  \<open>JSON.parse\<close>; the adapter depends only on the value it returns or the failure it
  signals.
\<close>

record 'e host =
  origRequest :: "jv \<Rightarrow> 'e \<Rightarrow> jv res \<times> 'e"
  origFetch :: "jv list \<Rightarrow> 'e \<Rightarrow> jv res \<times> 'e"
  JSON_parse :: "string \<Rightarrow> jv res"
  Date_now :: "'e \<Rightarrow> int"

text \<open>A call forwarded to one of the original entry points, with its arguments.\<close>

datatype call = ProviderCall jv | FetchCall "jv list"

text \<open>
  The page-global state the two interceptors share: \<open>window.x402\<close> and the three
  artifact slots \<open>window.__x402_nativePaymentData\<close>, \<open>window.__x402_eip2612_permit\<close> and
  \<open>window.__x402_eip2612_transfer\<close>; beside it the state of the outside world and the
  calls forwarded so far, oldest first.
\<close>

record 'e page =
  x402 :: jv
  x402_nativePaymentData :: jv
  x402_eip2612_permit :: jv
  x402_eip2612_transfer :: jv
  outside :: 'e
  issued :: "call list"

definition call_provider :: "'e host \<Rightarrow> jv \<Rightarrow> 'e page \<Rightarrow> jv res \<times> 'e page" where
  "call_provider H req s =
     (let (r, e') = origRequest H req (outside s)
      in (r, s\<lparr>outside := e', issued := issued s @ [ProviderCall req]\<rparr>))"

definition call_fetch :: "'e host \<Rightarrow> jv list \<Rightarrow> 'e page \<Rightarrow> jv res \<times> 'e page" where
  "call_fetch H args s =
     (let (r, e') = origFetch H args (outside s)
      in (r, s\<lparr>outside := e', issued := issued s @ [FetchCall args]\<rparr>))"

section \<open>Token configuration at load\<close>

definition default_token :: jv where
  "default_token =
     JObj [(''symbol'', JStr ''TOKEN''), (''address'', JStr []), (''decimals'', JNum 18),
           (''name'', JStr []), (''version'', JStr ''1'')]"

definition PERMIT_DEADLINE :: int where
  "PERMIT_DEADLINE = 3600"

text \<open>\<open>TOKEN.native === true\<close>.\<close>

definition IS_NATIVE :: "jv \<Rightarrow> bool" where
  "IS_NATIVE TOKEN = (opt_get TOKEN ''native'' = JBool True)"

text \<open>\<open>window.x402?.paymentRequirements?.[0]\<close>.\<close>

definition requirement0 :: "jv \<Rightarrow> jv" where
  "requirement0 x = opt_index (opt_get x ''paymentRequirements'') 0"

text \<open>
  The head of the native-capable script (\<open>part_000\<close>), from \<open>window.__x402_token\<close> and
  \<open>window.x402\<close> to the \<open>TOKEN\<close> object the interceptors close over; \<open>None\<close> when the
  script returns before installing anything.
  \<^verbatim>\<open>
  const TOKEN = window.__x402_token || { symbol: 'TOKEN', address: '', decimals: 18, name: '', version: '1' };
  const IS_NATIVE = TOKEN.native === true;
  if (!IS_NATIVE && !TOKEN.address) return;
  if (window.x402?.paymentRequirements?.[0]?.extra) {
    const extra = window.x402.paymentRequirements[0].extra;
    TOKEN.name = TOKEN.name || extra.name || TOKEN.symbol;
    TOKEN.version = TOKEN.version || extra.version || '1';
  }
  \<close>
\<close>

definition load_A :: "jv \<Rightarrow> jv \<Rightarrow> jv option" where
  "load_A wtoken x =
     (let TOKEN = jor wtoken default_token in
      if \<not> IS_NATIVE TOKEN \<and> \<not> truthy (opt_get TOKEN ''address'') then None
      else
        let extra = opt_get (requirement0 x) ''extra'' in
        if truthy extra then
          (case set_prop TOKEN ''name''
                  (jor (jor (opt_get TOKEN ''name'') (opt_get extra ''name'')) (opt_get TOKEN ''symbol'')) of
             Inl e \<Rightarrow> None
           | Inr T1 \<Rightarrow>
               (case set_prop T1 ''version''
                       (jor (jor (opt_get T1 ''version'') (opt_get extra ''version'')) (JStr ''1'')) of
                  Inl e \<Rightarrow> None
                | Inr T2 \<Rightarrow> Some T2))
        else Some TOKEN)"

text \<open>
  The head of \<open>paywall_adapter.js\<close>.
  \<^verbatim>\<open>
  const TOKEN = window.__x402_token || { symbol: 'TOKEN', address: '', decimals: 18, name: '', version: '1' };
  if (!TOKEN.address) return;
  if (window.x402?.paymentRequirements?.[0]?.extra) {
    const extra = window.x402.paymentRequirements[0].extra;
    if (extra.name) TOKEN.name = extra.name;
    if (extra.version) TOKEN.version = extra.version;
  }
  \<close>
\<close>

definition load_B :: "jv \<Rightarrow> jv \<Rightarrow> jv option" where
  "load_B wtoken x =
     (let TOKEN = jor wtoken default_token in
      if \<not> truthy (opt_get TOKEN ''address'') then None
      else
        let extra = opt_get (requirement0 x) ''extra'' in
        if truthy extra then
          (case (if truthy (opt_get extra ''name'') then set_prop TOKEN ''name'' (opt_get extra ''name'')
                 else Inr TOKEN) of
             Inl e \<Rightarrow> None
           | Inr T1 \<Rightarrow>
               (case (if truthy (opt_get extra ''version'')
                      then set_prop T1 ''version'' (opt_get extra ''version'') else Inr T1) of
                  Inl e \<Rightarrow> None
                | Inr T2 \<Rightarrow> Some T2))
        else Some TOKEN)"

section \<open>Provider call interceptor\<close>

text \<open>\<open>JSON.parse(args.params[1])\<close>, the first statement of the guarded block.\<close>

definition typed_data :: "'e host \<Rightarrow> jv \<Rightarrow> jv res" where
  "typed_data H args =
     res_bind (get args ''params'') (\<lambda>ps.
     res_bind (get_index ps 1) (\<lambda>p1.
     JSON_parse H (to_str p1)))"

text \<open>\<open>args.params[0]\<close>.\<close>

definition param0 :: "jv \<Rightarrow> jv res" where
  "param0 args = res_bind (get args ''params'') (\<lambda>ps. get_index ps 0)"

text \<open>
  The native branch: the transfer is sent as a transaction and its hash is stored and
  returned.
  \<^verbatim>\<open>
  const signer = args.params[0];
  const msg = data.message || {};
  const valueHex = '0x' + BigInt(msg.value).toString(16);
  const txHash = await origRequest({
    method: 'eth_sendTransaction',
    params: [{ from: signer, to: msg.to, value: valueHex }]
  });
  window.__x402_nativePaymentData = {
    txHash, from: signer, to: msg.to, amountWei: msg.value.toString()
  };
  return txHash;
  \<close>
  The result is what the block threw (\<open>Inl\<close>) or returned, with the state it left.
\<close>

definition native_branch :: "'e host \<Rightarrow> jv \<Rightarrow> jv \<Rightarrow> 'e page \<Rightarrow> jv res \<times> 'e page" where
  "native_branch H args data s =
     (case res_bind (param0 args) (\<lambda>signer.
           res_bind (get data ''message'') (\<lambda>m.
           let msg = jor m (JObj []) in
           res_bind (get msg ''value'') (\<lambda>v.
           res_bind (to_bigint v) (\<lambda>n.
           res_bind (get msg ''to'') (\<lambda>to.
           Inr (signer, v, to, JStr (''0x'' @ int_to_radix 16 n))))))) of
        Inl e \<Rightarrow> (Inl e, s)
      | Inr (signer, v, to, valueHex) \<Rightarrow>
          (case call_provider H
                  (JObj [(''method'', JStr ''eth_sendTransaction''),
                         (''params'', JArr [JObj [(''from'', signer), (''to'', to),
                                                  (''value'', valueHex)]])]) s of
             (Inl e, s1) \<Rightarrow> (Inl e, s1)
           | (Inr txHash, s1) \<Rightarrow>
               (Inr txHash,
                s1\<lparr>x402_nativePaymentData :=
                     JObj [(''txHash'', txHash), (''from'', signer), (''to'', to),
                           (''amountWei'', JStr (to_str v))]\<rparr>)))"

text \<open>The fixed \<open>types\<close> member of the reshaped typed data.\<close>

definition field :: "string \<Rightarrow> string \<Rightarrow> jv" where
  "field n t = JObj [(''name'', JStr n), (''type'', JStr t)]"

definition permit_types :: jv where
  "permit_types =
     JObj [(''EIP712Domain'',
              JArr [field ''name'' ''string'', field ''version'' ''string'',
                    field ''chainId'' ''uint256'', field ''verifyingContract'' ''address'']),
           (''Permit'',
              JArr [field ''owner'' ''address'', field ''spender'' ''address'',
                    field ''value'' ''uint256'', field ''nonce'' ''uint256'',
                    field ''deadline'' ''uint256''])]"

text \<open>
  The ERC-20 branch, the same text in both scripts: the nonce is read with \<open>eth_call\<close>,
  the typed data is rebuilt as a \<open>Permit\<close>, signed, and the signature is stored and
  returned.  \<open>owner.slice(2).padStart(64, '0')\<close> succeeds on a string only.
  \<^verbatim>\<open>
  const domain = data.domain || {};
  const msg = data.message || {};
  const owner = args.params[0];
  const deadline = Math.floor(Date.now() / 1000) + PERMIT_DEADLINE;
  const permitDomain = {
    name: TOKEN.name || domain.name,
    version: TOKEN.version || domain.version || '1',
    chainId: domain.chainId,
    verifyingContract: TOKEN.address,
  };
  const nonceData = '0x7ecebe00' + owner.slice(2).padStart(64, '0');
  const nonceHex = await origRequest({ method: 'eth_call', params: [{ to: TOKEN.address, data: nonceData }, 'latest'] });
  const nonce = parseInt(nonceHex, 16);
  const permitMsg = { owner, spender: msg.to || msg.recipient, value: msg.value, nonce, deadline: String(deadline) };
  const newData = { types: {...}, primaryType: 'Permit', domain: permitDomain, message: permitMsg };
  const sig = await origRequest({ method: 'eth_signTypedData_v4', params: [owner, JSON.stringify(newData)] });
  window.__x402_eip2612_permit = { owner, spender: permitMsg.spender, value: permitMsg.value, nonce, deadline: String(deadline), signature: sig };
  window.__x402_eip2612_transfer = { from: owner, to: permitMsg.spender, amount: permitMsg.value };
  return sig;
  \<close>
\<close>

definition permit_branch :: "'e host \<Rightarrow> jv \<Rightarrow> jv \<Rightarrow> jv \<Rightarrow> 'e page \<Rightarrow> jv res \<times> 'e page" where
  "permit_branch H TOKEN args data s =
     (case res_bind (get data ''domain'') (\<lambda>d.
           let domain = jor d (JObj []) in
           res_bind (get data ''message'') (\<lambda>m.
           let msg = jor m (JObj []) in
           res_bind (param0 args) (\<lambda>owner.
           let deadline = Date_now H (outside s) div 1000 + PERMIT_DEADLINE in
           res_bind (get TOKEN ''name'') (\<lambda>tname.
           res_bind (get domain ''name'') (\<lambda>dname.
           res_bind (get TOKEN ''version'') (\<lambda>tversion.
           res_bind (get domain ''version'') (\<lambda>dversion.
           res_bind (get domain ''chainId'') (\<lambda>chainId.
           res_bind (get TOKEN ''address'') (\<lambda>address.
           let permitDomain =
                 JObj [(''name'', jor tname dname),
                       (''version'', jor (jor tversion dversion) (JStr ''1'')),
                       (''chainId'', chainId),
                       (''verifyingContract'', address)] in
           res_bind (case owner of JStr ow \<Rightarrow> Inr (''0x7ecebe00'' @ padStart 64 (drop 2 ow))
                     | _ \<Rightarrow> Inl TypeError) (\<lambda>nonceData.
           Inr (msg, owner, deadline, permitDomain, address, nonceData))))))))))) of
        Inl e \<Rightarrow> (Inl e, s)
      | Inr (msg, owner, deadline, permitDomain, address, nonceData) \<Rightarrow>
          (case call_provider H
                  (JObj [(''method'', JStr ''eth_call''),
                         (''params'', JArr [JObj [(''to'', address), (''data'', JStr nonceData)],
                                            JStr ''latest''])]) s of
             (Inl e, s1) \<Rightarrow> (Inl e, s1)
           | (Inr nonceHex, s1) \<Rightarrow>
               let nonce = parseInt16 nonceHex in
               (case res_bind (get msg ''to'') (\<lambda>to.
                     res_bind (get msg ''recipient'') (\<lambda>recipient.
                     res_bind (get msg ''value'') (\<lambda>v.
                     Inr (jor to recipient, v)))) of
                  Inl e \<Rightarrow> (Inl e, s1)
                | Inr (spender, v) \<Rightarrow>
                    let permitMsg =
                          JObj [(''owner'', owner), (''spender'', spender), (''value'', v),
                                (''nonce'', nonce),
                                (''deadline'', JStr (to_str (JNum deadline)))];
                        newData =
                          JObj [(''types'', permit_types), (''primaryType'', JStr ''Permit''),
                                (''domain'', permitDomain), (''message'', permitMsg)]
                    in
                    (case call_provider H
                            (JObj [(''method'', JStr ''eth_signTypedData_v4''),
                                   (''params'', JArr [owner, JSON_stringify newData])]) s1 of
                       (Inl e, s2) \<Rightarrow> (Inl e, s2)
                     | (Inr sig, s2) \<Rightarrow>
                         (Inr sig,
                          s2\<lparr>x402_eip2612_permit :=
                               JObj [(''owner'', owner), (''spender'', spender), (''value'', v),
                                     (''nonce'', nonce),
                                     (''deadline'', JStr (to_str (JNum deadline))),
                                     (''signature'', sig)],
                             x402_eip2612_transfer :=
                               JObj [(''from'', owner), (''to'', spender), (''amount'', v)]\<rparr>)))))"

text \<open>
  The guarded block of \<open>part_000\<close>.  It throws (\<open>Inl\<close>), returns a value
  (\<open>Inr (Some v)\<close>), or runs to its end without returning (\<open>Inr None\<close>) when the parsed
  payload is not a transfer authorisation.
  \<^verbatim>\<open>
  const data = JSON.parse(args.params[1]);
  if (data?.primaryType === 'TransferWithAuthorization') {
    if (IS_NATIVE) { ... return txHash; }
    ... return sig;
  }
  \<close>
\<close>

definition guarded_A :: "'e host \<Rightarrow> jv \<Rightarrow> jv \<Rightarrow> 'e page \<Rightarrow> jv option res \<times> 'e page" where
  "guarded_A H TOKEN args s =
     (case typed_data H args of
        Inl e \<Rightarrow> (Inl e, s)
      | Inr data \<Rightarrow>
          if opt_get data ''primaryType'' = JStr ''TransferWithAuthorization'' then
            (case (if IS_NATIVE TOKEN then native_branch H args data s
                   else permit_branch H TOKEN args data s) of
               (Inl e, s') \<Rightarrow> (Inl e, s')
             | (Inr v, s') \<Rightarrow> (Inr (Some v), s'))
          else (Inr None, s))"

text \<open>The guarded block of \<open>paywall_adapter.js\<close>, which has no native branch.\<close>

definition guarded_B :: "'e host \<Rightarrow> jv \<Rightarrow> jv \<Rightarrow> 'e page \<Rightarrow> jv option res \<times> 'e page" where
  "guarded_B H TOKEN args s =
     (case typed_data H args of
        Inl e \<Rightarrow> (Inl e, s)
      | Inr data \<Rightarrow>
          if opt_get data ''primaryType'' = JStr ''TransferWithAuthorization'' then
            (case permit_branch H TOKEN args data s of
               (Inl e, s') \<Rightarrow> (Inl e, s')
             | (Inr v, s') \<Rightarrow> (Inr (Some v), s'))
          else (Inr None, s))"

text \<open>
  The wrapped \<open>window.ethereum.request\<close>.  Reading \<open>args.method\<close> stands outside the
  \<open>try\<close>; the empty \<open>catch\<close> and the end of the block both lead to the last line.
  \<^verbatim>\<open>
  window.ethereum.request = async function(args) {
    if (args.method === 'eth_signTypedData_v4') {
      try { ... } catch {}
    }
    return origRequest(args);
  };
  \<close>
\<close>

definition request_A :: "'e host \<Rightarrow> jv \<Rightarrow> jv \<Rightarrow> 'e page \<Rightarrow> jv res \<times> 'e page" where
  "request_A H TOKEN args s =
     (case get args ''method'' of
        Inl e \<Rightarrow> (Inl e, s)
      | Inr m \<Rightarrow>
          if m = JStr ''eth_signTypedData_v4'' then
            (case guarded_A H TOKEN args s of
               (Inr (Some v), s') \<Rightarrow> (Inr v, s')
             | (Inr None, s') \<Rightarrow> call_provider H args s'
             | (Inl e, s') \<Rightarrow> call_provider H args s')
          else call_provider H args s)"

definition request_B :: "'e host \<Rightarrow> jv \<Rightarrow> jv \<Rightarrow> 'e page \<Rightarrow> jv res \<times> 'e page" where
  "request_B H TOKEN args s =
     (case get args ''method'' of
        Inl e \<Rightarrow> (Inl e, s)
      | Inr m \<Rightarrow>
          if m = JStr ''eth_signTypedData_v4'' then
            (case guarded_B H TOKEN args s of
               (Inr (Some v), s') \<Rightarrow> (Inr v, s')
             | (Inr None, s') \<Rightarrow> call_provider H args s'
             | (Inl e, s') \<Rightarrow> call_provider H args s')
          else call_provider H args s)"

section \<open>Network call interceptor\<close>

text \<open>\<open>args[1]\<close> of the rest parameter.\<close>

definition arg1 :: "jv list \<Rightarrow> jv" where
  "arg1 args = (if 1 < length args then args ! 1 else JUndef)"

text \<open>\<open>window.x402?.paymentRequirements?.[0]?.network || 'base-sepolia'\<close>.\<close>

definition network_of :: "jv \<Rightarrow> jv" where
  "network_of x = jor (opt_get (requirement0 x) ''network'') (JStr ''base-sepolia'')"

text \<open>
  \<open>if (h instanceof Headers) { h.set('X-PAYMENT', encoded); } else { h['X-PAYMENT'] = encoded; }\<close>
\<close>

fun write_header :: "jv \<Rightarrow> string \<Rightarrow> jv res" where
  "write_header (JHeaders ps hs) encoded = Inr (JHeaders ps (headers_set hs ''X-PAYMENT'' encoded))"
| "write_header h encoded = set_prop h ''X-PAYMENT'' (JStr encoded)"

text \<open>
  The header object is changed in place, so the arguments handed on hold the changed
  object where \<open>args[1].headers\<close> stood.
\<close>

definition put_headers :: "jv list \<Rightarrow> jv \<Rightarrow> jv list res" where
  "put_headers args h' =
     res_bind (set_prop (arg1 args) ''headers'' h') (\<lambda>init'. Inr (args[1 := init']))"

definition native_payload :: "jv \<Rightarrow> jv \<Rightarrow> jv \<Rightarrow> jv \<Rightarrow> jv \<Rightarrow> jv" where
  "native_payload network txHash frm to amountWei =
     JObj [(''x402Version'', JNum 1), (''scheme'', JStr ''native''), (''network'', network),
           (''payload'', JObj [(''txHash'', txHash), (''from'', frm), (''to'', to),
                               (''amountWei'', amountWei)])]"

definition exact_payload :: "jv \<Rightarrow> jv \<Rightarrow> jv \<Rightarrow> jv" where
  "exact_payload network permit transfer =
     JObj [(''x402Version'', JNum 1), (''scheme'', JStr ''exact''), (''network'', network),
           (''payload'', JObj [(''permit'', permit), (''transfer'', transfer)])]"

text \<open>
  The guarded block of the wrapped \<open>fetch\<close> of \<open>part_000\<close>: the arguments to hand on and
  the state it leaves, or what it threw.
  \<^verbatim>\<open>
  if (args[1]?.headers) {
    const h = args[1].headers;
    const xpay = h['X-PAYMENT'] || h['x-payment'];
    if (xpay) {
      if (IS_NATIVE && window.__x402_nativePaymentData) {
        const np = window.__x402_nativePaymentData;
        const payload = { x402Version: 1, scheme: 'native', network: ..., payload: { txHash: np.txHash, from: np.from, to: np.to, amountWei: np.amountWei } };
        const encoded = btoa(JSON.stringify(payload));
        if (h instanceof Headers) { h.set('X-PAYMENT', encoded); } else { h['X-PAYMENT'] = encoded; }
        window.__x402_nativePaymentData = null;
      }
      else if (window.__x402_eip2612_permit) {
        const payload = { x402Version: 1, scheme: 'exact', network: ..., payload: { permit: window.__x402_eip2612_permit, transfer: window.__x402_eip2612_transfer } };
        const encoded = btoa(JSON.stringify(payload));
        if (h instanceof Headers) { h.set('X-PAYMENT', encoded); } else { h['X-PAYMENT'] = encoded; }
        delete window.__x402_eip2612_permit;
        delete window.__x402_eip2612_transfer;
      }
    }
  }
  \<close>
\<close>

definition adapt_A :: "jv \<Rightarrow> jv list \<Rightarrow> 'e page \<Rightarrow> (jv list \<times> 'e page) res" where
  "adapt_A TOKEN args s =
     (let h = opt_get (arg1 args) ''headers'' in
      if truthy h then
        res_bind (get h ''X-PAYMENT'') (\<lambda>a.
        res_bind (get h ''x-payment'') (\<lambda>b.
        let xpay = jor a b in
        if truthy xpay then
          if IS_NATIVE TOKEN \<and> truthy (x402_nativePaymentData s) then
            let np = x402_nativePaymentData s in
            res_bind (get np ''txHash'') (\<lambda>txHash.
            res_bind (get np ''from'') (\<lambda>frm.
            res_bind (get np ''to'') (\<lambda>to.
            res_bind (get np ''amountWei'') (\<lambda>amountWei.
            let payload = native_payload (network_of (x402 s)) txHash frm to amountWei;
                encoded = btoa (to_str (JSON_stringify payload))
            in res_bind (write_header h encoded) (\<lambda>h'.
               res_bind (put_headers args h') (\<lambda>args'.
               Inr (args', s\<lparr>x402_nativePaymentData := JNull\<rparr>)))))))
          else if truthy (x402_eip2612_permit s) then
            let payload = exact_payload (network_of (x402 s)) (x402_eip2612_permit s)
                            (x402_eip2612_transfer s);
                encoded = btoa (to_str (JSON_stringify payload))
            in res_bind (write_header h encoded) (\<lambda>h'.
               res_bind (put_headers args h') (\<lambda>args'.
               Inr (args', s\<lparr>x402_eip2612_permit := JUndef, x402_eip2612_transfer := JUndef\<rparr>)))
          else Inr (args, s)
        else Inr (args, s)))
      else Inr (args, s))"

text \<open>
  The guarded block of the wrapped \<open>fetch\<close> of \<open>paywall_adapter.js\<close>.
  \<^verbatim>\<open>
  if (window.__x402_eip2612_permit && args[1]?.headers) {
    const h = args[1].headers;
    const xpay = h['X-PAYMENT'] || h['x-payment'];
    if (xpay) {
      const payload = { x402Version: 1, scheme: 'exact', network: ..., payload: { permit: window.__x402_eip2612_permit, transfer: window.__x402_eip2612_transfer } };
      const encoded = btoa(JSON.stringify(payload));
      if (h instanceof Headers) { h.set('X-PAYMENT', encoded); } else { h['X-PAYMENT'] = encoded; }
      delete window.__x402_eip2612_permit;
      delete window.__x402_eip2612_transfer;
    }
  }
  \<close>
\<close>

definition adapt_B :: "jv list \<Rightarrow> 'e page \<Rightarrow> (jv list \<times> 'e page) res" where
  "adapt_B args s =
     (let h = opt_get (arg1 args) ''headers'' in
      if truthy (x402_eip2612_permit s) \<and> truthy h then
        res_bind (get h ''X-PAYMENT'') (\<lambda>a.
        res_bind (get h ''x-payment'') (\<lambda>b.
        let xpay = jor a b in
        if truthy xpay then
          let payload = exact_payload (network_of (x402 s)) (x402_eip2612_permit s)
                          (x402_eip2612_transfer s);
              encoded = btoa (to_str (JSON_stringify payload))
          in res_bind (write_header h encoded) (\<lambda>h'.
             res_bind (put_headers args h') (\<lambda>args'.
             Inr (args', s\<lparr>x402_eip2612_permit := JUndef, x402_eip2612_transfer := JUndef\<rparr>)))
        else Inr (args, s)))
      else Inr (args, s))"

text \<open>
  The wrapped \<open>window.fetch\<close>: whatever the guarded block throws is dropped, and the
  original is called with the arguments as they then are.
  \<^verbatim>\<open>
  window.fetch = async function(...args) {
    try { ... } catch {}
    return origFetch.apply(this, args);
  };
  \<close>
\<close>

definition fetch_A :: "'e host \<Rightarrow> jv \<Rightarrow> jv list \<Rightarrow> 'e page \<Rightarrow> jv res \<times> 'e page" where
  "fetch_A H TOKEN args s =
     (case adapt_A TOKEN args s of
        Inl e \<Rightarrow> call_fetch H args s
      | Inr (args', s') \<Rightarrow> call_fetch H args' s')"

definition fetch_B :: "'e host \<Rightarrow> jv list \<Rightarrow> 'e page \<Rightarrow> jv res \<times> 'e page" where
  "fetch_B H args s =
     (case adapt_B args s of
        Inl e \<Rightarrow> call_fetch H args s
      | Inr (args', s') \<Rightarrow> call_fetch H args' s')"

section \<open>Reachable states\<close>

text \<open>
  The subsystem starts with the three slots unset.  From then on the page signs and
  fetches in any order, each call running to its end before the next, while the outside
  world and \<open>window.x402\<close> change as they please between calls.
\<close>

inductive reachable_A :: "'e host \<Rightarrow> jv \<Rightarrow> 'e page \<Rightarrow> bool" for H :: "'e host" and TOKEN :: jv where
  init: "x402_nativePaymentData s = JUndef \<Longrightarrow> x402_eip2612_permit s = JUndef \<Longrightarrow>
         x402_eip2612_transfer s = JUndef \<Longrightarrow> reachable_A H TOKEN s"
| sign: "reachable_A H TOKEN s \<Longrightarrow> reachable_A H TOKEN (snd (request_A H TOKEN args s))"
| fetch: "reachable_A H TOKEN s \<Longrightarrow> reachable_A H TOKEN (snd (fetch_A H TOKEN fargs s))"
| world: "reachable_A H TOKEN s \<Longrightarrow> reachable_A H TOKEN (s\<lparr>x402 := x, outside := e\<rparr>)"

section \<open>Vocabulary of the statements\<close>

text \<open>
  A signing call matches when its second parameter parses and the parsed payload has
  primary type \<open>TransferWithAuthorization\<close>.
\<close>

definition is_transfer_authorization :: "'e host \<Rightarrow> jv \<Rightarrow> bool" where
  "is_transfer_authorization H args =
     (case typed_data H args of
        Inl e \<Rightarrow> False
      | Inr data \<Rightarrow> opt_get data ''primaryType'' = JStr ''TransferWithAuthorization'')"

text \<open>
  The \<open>Permit\<close> typed data as the interface description lays it out: the two type
  lists with their fields in the fixed order, the primary type, the four domain members
  and the five message members, in that order.
\<close>

definition Permit_typed_data ::
  "jv \<Rightarrow> jv \<Rightarrow> jv \<Rightarrow> jv \<Rightarrow> jv \<Rightarrow> jv \<Rightarrow> jv \<Rightarrow> jv \<Rightarrow> jv \<Rightarrow> jv" where
  "Permit_typed_data name version chainId verifyingContract owner spender val nonce deadline =
     JObj [(''types'',
              JObj [(''EIP712Domain'',
                       JArr [JObj [(''name'', JStr ''name''), (''type'', JStr ''string'')],
                             JObj [(''name'', JStr ''version''), (''type'', JStr ''string'')],
                             JObj [(''name'', JStr ''chainId''), (''type'', JStr ''uint256'')],
                             JObj [(''name'', JStr ''verifyingContract''), (''type'', JStr ''address'')]]),
                    (''Permit'',
                       JArr [JObj [(''name'', JStr ''owner''), (''type'', JStr ''address'')],
                             JObj [(''name'', JStr ''spender''), (''type'', JStr ''address'')],
                             JObj [(''name'', JStr ''value''), (''type'', JStr ''uint256'')],
                             JObj [(''name'', JStr ''nonce''), (''type'', JStr ''uint256'')],
                             JObj [(''name'', JStr ''deadline''), (''type'', JStr ''uint256'')]])]),
           (''primaryType'', JStr ''Permit''),
           (''domain'', JObj [(''name'', name), (''version'', version), (''chainId'', chainId),
                              (''verifyingContract'', verifyingContract)]),
           (''message'', JObj [(''owner'', owner), (''spender'', spender), (''value'', val),
                               (''nonce'', nonce), (''deadline'', deadline)])]"


text \<open>
  A header collection with its \<open>X-PAYMENT\<close> entry holding the given text: the property
  of that very name of a plain header map, the header of a native \<open>Headers\<close> collection.
  In a plain map a property under another spelling of the name, such as \<open>x-payment\<close>,
  keeps its value.
\<close>

definition set_payment_header :: "jv \<Rightarrow> string \<Rightarrow> jv" where
  "set_payment_header h encoded =
     (case h of
        JObj ps \<Rightarrow> JObj (AList.update ''X-PAYMENT'' (JStr encoded) ps)
      | JHeaders ps hs \<Rightarrow> JHeaders ps (headers_set hs ''X-PAYMENT'' encoded)
      | _ \<Rightarrow> h)"

text \<open>
  The arguments of a request with the \<open>X-PAYMENT\<close> entry of \<open>args[1].headers\<close> holding
  the given text and nothing else changed.
\<close>

definition with_payment_header :: "jv list \<Rightarrow> string \<Rightarrow> jv list" where
  "with_payment_header args encoded =
     (case arg1 args of
        JObj ips \<Rightarrow>
          args[1 := JObj (AList.update ''headers''
                            (set_payment_header (lookup ips ''headers'') encoded) ips)]
      | JHeaders ips hs \<Rightarrow>
          args[1 := JHeaders (AList.update ''headers''
                                (set_payment_header (lookup ips ''headers'') encoded) ips) hs]
      | _ \<Rightarrow> args)"

text \<open>
  The header test of the interface description: some header of the collection is named
  \<open>x-payment\<close> in some casing and holds a non-empty value, in a plain header map or in a
  native \<open>Headers\<close> collection.
\<close>

definition carries_payment_header :: "jv \<Rightarrow> bool" where
  "carries_payment_header h =
     (case h of
        JObj ps \<Rightarrow> list_ex (\<lambda>p. lower (fst p) = ''x-payment'' \<and> truthy (snd p)) ps
      | JHeaders ps hs \<Rightarrow> list_ex (\<lambda>p. lower (fst p) = ''x-payment'' \<and> snd p \<noteq> []) hs
      | _ \<Rightarrow> False)"

section \<open>A mock wallet for the worked examples\<close>

text \<open>
  The examples of the interface description run against a mock provider.  It answers
  the nonce read with 5 (or rejects it, on request), signs with \<open>0xsig\<close>, sends with
  \<open>0xhash\<close> and rejects every other method; the outside state counts its calls.  The
  mock parser knows the two typed-data texts of the examples.
\<close>

definition example_erc20 :: jv where
  "example_erc20 =
     JObj [(''primaryType'', JStr ''TransferWithAuthorization''),
           (''domain'', JObj [(''name'', JStr ''USDC''), (''chainId'', JNum 84532)]),
           (''message'', JObj [(''to'', JStr ''0xSpender''), (''value'', JStr ''1000000'')])]"

definition example_native :: jv where
  "example_native =
     JObj [(''primaryType'', JStr ''TransferWithAuthorization''),
           (''message'', JObj [(''to'', JStr ''0xRecipient''),
                               (''value'', JStr ''2000000000000000000'')])]"

definition mock_parse :: "string \<Rightarrow> jv res" where
  "mock_parse t =
     (if t = to_str (JSON_stringify example_erc20) then Inr example_erc20
      else if t = to_str (JSON_stringify example_native) then Inr example_native
      else Inl SyntaxError)"

definition mock_host :: "bool \<Rightarrow> nat host" where
  "mock_host nonce_rejects =
     \<lparr>origRequest = (\<lambda>req e.
        if opt_get req ''method'' = JStr ''eth_call'' then
          (if nonce_rejects then Inl (Thrown (JStr ''execution reverted''))
           else Inr (JStr ''0x0000000000000000000000000000000000000000000000000000000000000005''),
           Suc e)
        else if opt_get req ''method'' = JStr ''eth_signTypedData_v4'' then
          (Inr (JStr ''0xsig''), Suc e)
        else if opt_get req ''method'' = JStr ''eth_sendTransaction'' then
          (Inr (JStr ''0xhash''), Suc e)
        else (Inl (Thrown (JStr ''unsupported method'')), Suc e)),
      origFetch = (\<lambda>args e. (Inr (JStr ''response''), Suc e)),
      JSON_parse = mock_parse,
      Date_now = (\<lambda>e. 1700000000123)\<rparr>"

definition sign_call :: "jv \<Rightarrow> jv" where
  "sign_call data =
     JObj [(''method'', JStr ''eth_signTypedData_v4''),
           (''params'', JArr [JStr ''0xOwner'', JSON_stringify data])]"

definition erc20_token :: jv where
  "erc20_token =
     JObj [(''symbol'', JStr ''TKN''), (''address'', JStr ''0xToken''), (''decimals'', JNum 18),
           (''name'', JStr ''Token''), (''version'', JStr ''1'')]"

definition native_token :: jv where
  "native_token =
     JObj [(''symbol'', JStr ''ETH''), (''address'', JStr []), (''decimals'', JNum 18),
           (''native'', JBool True)]"

definition fresh_page :: "nat page" where
  "fresh_page =
     \<lparr>x402 = JUndef, x402_nativePaymentData = JUndef, x402_eip2612_permit = JUndef,
      x402_eip2612_transfer = JUndef, outside = 0, issued = []\<rparr>"

text \<open>
  A payment-requirements descriptor whose first requirement names the token
  differently from the configuration of \<open>erc20_token\<close>.
\<close>

definition example_descriptor :: jv where
  "example_descriptor =
     JObj [(''paymentRequirements'',
              JArr [JObj [(''network'', JStr ''base''),
                          (''extra'', JObj [(''name'', JStr ''USD Coin''),
                                            (''version'', JStr ''2'')])]])]"

text \<open>The page after the signing call of the ERC-20 example, and a request to pay with.\<close>

definition signed_page :: "nat page" where
  "signed_page = snd (request_A (mock_host False) erc20_token (sign_call example_erc20) fresh_page)"

definition paying_request :: "string \<Rightarrow> jv list" where
  "paying_request key =
     [JStr ''https://example.test/premium'',
      JObj [(''method'', JStr ''GET''),
            (''headers'', JObj [(key, JStr ''placeholder'')])]]"

section \<open>Facts about digit strings\<close>

lemma digit_val_digit_char: "n < 16 \<Longrightarrow> digit_val (digit_char n) = Some n"
proof -
  assume "n < 16"
  then have "n \<in> {0,1,2,3,4,5,6,7,8,9,10,11,12,13,14,15}" by simp arith
  then show ?thesis
    by (auto simp: digit_char_def digit_val_def)
qed

lemma digit_char_not_dot: "n < 10 \<Longrightarrow> digit_char n \<noteq> CHR ''.''"
proof -
  assume "n < 10"
  then have "n \<in> {0,1,2,3,4,5,6,7,8,9}" by auto
  then show ?thesis
    by (auto simp: digit_char_def)
qed

lemma digit_char_0: "digit_char 0 = CHR ''0''"
  by (simp add: digit_char_def)

lemma radix_val_Nil: "radix_val b [] = 0"
  by (simp add: radix_val_def)

lemma radix_val_snoc:
  "radix_val b (s @ [c]) = radix_val b s * b + (case digit_val c of None \<Rightarrow> 0 | Some v \<Rightarrow> v)"
  by (simp add: radix_val_def)

lemma radix_val_append:
  "radix_val b (s @ t) = radix_val b s * b ^ length t + radix_val b t"
proof (induction t rule: rev_induct)
  case Nil
  then show ?case by (simp add: radix_val_Nil)
next
  case (snoc c t)
  have "radix_val b (s @ t @ [c]) = radix_val b ((s @ t) @ [c])" by simp
  also have "\<dots> = radix_val b (s @ t) * b + (case digit_val c of None \<Rightarrow> 0 | Some v \<Rightarrow> v)"
    by (rule radix_val_snoc)
  finally show ?case
    by (simp add: snoc.IH radix_val_snoc algebra_simps)
qed

lemma radix_val_replicate_0: "radix_val b (replicate k CHR ''0'') = 0"
  by (induction k) (simp_all add: radix_val_def digit_val_def)

lemma radix_val_nat_to_radix: "radix_val 10 (nat_to_radix 10 n) = n"
proof (induction "10::nat" n rule: nat_to_radix.induct)
  case (1 n)
  show ?case
  proof (cases "n < 10")
    case True
    then show ?thesis
      by (simp add: nat_to_radix.simps radix_val_def digit_val_digit_char)
  next
    case False
    then have "radix_val 10 (nat_to_radix 10 (n div 10)) = n div 10"
      using 1 by simp
    moreover have "digit_val (digit_char (n mod 10)) = Some (n mod 10)"
      by (rule digit_val_digit_char) simp
    ultimately show ?thesis using False
      by (simp add: nat_to_radix.simps [of 10 n] radix_val_snoc)
  qed
qed

lemma nat_to_radix_no_dot: "CHR ''.'' \<notin> set (nat_to_radix 10 n)"
proof (induction "10::nat" n rule: nat_to_radix.induct)
  case (1 n)
  show ?case
  proof (cases "n < 10")
    case True
    then show ?thesis
      using digit_char_not_dot [of n] by (auto simp add: nat_to_radix.simps)
  next
    case False
    then have "CHR ''.'' \<notin> set (nat_to_radix 10 (n div 10))"
      using 1 by simp
    moreover have "digit_char (n mod 10) \<noteq> CHR ''.''"
      by (rule digit_char_not_dot) simp
    ultimately show ?thesis using False
      by (auto simp add: nat_to_radix.simps [of 10 n])
  qed
qed

lemma length_fixed_digits: "length (fixed_digits d r) = d"
  by (induction d arbitrary: r) simp_all

lemma fixed_digits_0: "fixed_digits d 0 = replicate d CHR ''0''"
  by (induction d) (simp_all add: digit_char_0 replicate_append_same)

lemma radix_val_fixed_digits: "radix_val 10 (fixed_digits d r) = r mod 10 ^ d"
proof (induction d arbitrary: r)
  case 0
  then show ?case by (simp add: radix_val_Nil)
next
  case (Suc d)
  have "digit_val (digit_char (r mod 10)) = Some (r mod 10)"
    by (rule digit_val_digit_char) simp
  then have "radix_val 10 (fixed_digits (Suc d) r) = (r div 10) mod 10 ^ d * 10 + r mod 10"
    by (simp add: radix_val_snoc Suc.IH)
  also have "\<dots> = r mod 10 ^ Suc d"
    by (simp add: mod_mult2_eq)
  finally show ?case .
qed

lemma padStart_snoc:
  "padStart (Suc n) (s @ [c]) = padStart n s @ [c]"
  by (simp add: padStart_def)

lemma padStart_fixed_digits:
  "r < 10 ^ Suc d \<Longrightarrow> padStart (Suc d) (nat_to_radix 10 r) = fixed_digits (Suc d) r"
proof (induction d arbitrary: r)
  case 0
  then show ?case
    by (simp add: nat_to_radix.simps padStart_def)
next
  case (Suc d)
  show ?case
  proof (cases "r < 10")
    case True
    then show ?thesis
      by (simp add: nat_to_radix.simps padStart_def fixed_digits_0 digit_char_0 replicate_append_same)
  next
    case False
    have "r div 10 < 10 ^ Suc d"
      using Suc.prems by (simp add: less_mult_imp_div_less)
    then have "padStart (Suc d) (nat_to_radix 10 (r div 10)) = fixed_digits (Suc d) (r div 10)"
      by (rule Suc.IH)
    then show ?thesis using False
      by (simp add: nat_to_radix.simps [of 10 r] padStart_snoc del: fixed_digits.simps)
         (simp)
  qed
qed

lemma int_to_radix_nonneg: "0 \<le> k \<Longrightarrow> int_to_radix b k = nat_to_radix b (nat k)"
  by (simp add: int_to_radix_def)

lemma strip_trailing_zeros_restore:
  "strip_trailing_zeros s @ replicate (length s - length (strip_trailing_zeros s)) CHR ''0'' = s"
proof (induction s rule: rev_induct)
  case Nil
  then show ?case by (simp add: strip_trailing_zeros_def)
next
  case (snoc c s)
  show ?case
  proof (cases "c = CHR ''0''")
    case True
    have st: "strip_trailing_zeros (s @ [c]) = strip_trailing_zeros s"
      using True by (simp add: strip_trailing_zeros_def)
    have le: "length (strip_trailing_zeros s) \<le> length s"
      using length_dropWhile_le [of "\<lambda>c. c = CHR ''0''" "rev s"]
      by (simp add: strip_trailing_zeros_def)
    have "replicate (length (s @ [c]) - length (strip_trailing_zeros s)) CHR ''0''
          = replicate (length s - length (strip_trailing_zeros s)) CHR ''0'' @ [c]"
      using le True by (simp add: Suc_diff_le replicate_append_same)
    then show ?thesis
      using snoc.IH st by simp
  next
    case False
    then show ?thesis by (simp add: strip_trailing_zeros_def)
  qed
qed

lemma length_strip_trailing_zeros: "length (strip_trailing_zeros s) \<le> length s"
  using length_dropWhile_le [of "\<lambda>c. c = CHR ''0''" "rev s"]
  by (simp add: strip_trailing_zeros_def)

lemma strip_no_dot: "CHR ''.'' \<notin> set s \<Longrightarrow> CHR ''.'' \<notin> set (strip_trailing_zeros s)"
  using set_dropWhileD [of "CHR ''.''" "\<lambda>c. c = CHR ''0''" "rev s"]
  by (auto simp: strip_trailing_zeros_def)

lemma digits_fixed_digits: "list_all (is_digit 10) (fixed_digits d r)"
  by (induction d arbitrary: r) (simp_all add: is_digit_def digit_val_digit_char)

lemma radix_val_bound:
  "list_all (is_digit b) s \<Longrightarrow> 0 < b \<Longrightarrow> radix_val b s < b ^ length s"
proof (induction s rule: rev_induct)
  case Nil
  then show ?case by (simp add: radix_val_Nil)
next
  case (snoc c s)
  from snoc.prems obtain v where v: "digit_val c = Some v" "v < b"
    by (auto simp: is_digit_def split: option.splits)
  have "radix_val b s < b ^ length s"
    using snoc by simp
  then have "radix_val b s + 1 \<le> b ^ length s" by simp
  then have "(radix_val b s + 1) * b \<le> b ^ length s * b"
    by (rule mult_le_mono1)
  then show ?case
    using v by (simp add: radix_val_snoc algebra_simps)
qed

lemma fixed_digits_no_dot: "CHR ''.'' \<notin> set (fixed_digits d r)"
proof (induction d arbitrary: r)
  case 0
  then show ?case by simp
next
  case (Suc d)
  have "digit_char (r mod 10) \<noteq> CHR ''.''"
    by (rule digit_char_not_dot) simp
  then show ?case using Suc [of "r div 10"] by auto
qed

lemma formatAmount_amount_text:
  assumes "to_bigint atomic = Inr a" and "0 \<le> a" and "0 \<le> d"
  shows "formatAmount atomic (JNum d) = Inr (amount_text (nat a) (nat d))"
proof -
  let ?D = "(10::int) ^ nat d"
  have Dpos: "0 < ?D" by simp
  have q: "a sdiv ?D = a div ?D"
    using assms(2) Dpos by (simp add: signed_divide_int_def sgn_if)
  have r: "a smod ?D = a mod ?D"
    using assms(2) Dpos by (simp add: signed_modulo_int_def sgn_if)
  have qn: "nat (a div ?D) = nat a div 10 ^ nat d"
    using assms(2) by (simp add: nat_div_distrib nat_power_eq)
  have rn: "nat (a mod ?D) = nat a mod 10 ^ nat d"
    using assms(2) by (simp add: nat_mod_distrib nat_power_eq)
  have q0: "0 \<le> a div ?D" using assms(2) Dpos by (simp add: pos_imp_zdiv_nonneg_iff)
  have r0: "0 \<le> a mod ?D" using Dpos by simp
  have frac: "strip_trailing_zeros (take 4 (padStart (nat d) (nat_to_radix 10 (nat a mod 10 ^ nat d))))
      = strip_trailing_zeros (take 4 (fixed_digits (nat d) (nat a mod 10 ^ nat d)))"
  proof (cases "nat d")
    case 0
    then show ?thesis
      by (simp add: nat_to_radix.simps padStart_def digit_char_0 strip_trailing_zeros_def)
  next
    case (Suc k)
    have "nat a mod 10 ^ Suc k < 10 ^ Suc k" by simp
    then show ?thesis
      unfolding Suc by (simp only: padStart_fixed_digits)
  qed
  show ?thesis
    using assms(1,3) q0 r0
    by (simp add: formatAmount_def q r int_to_radix_nonneg qn rn frac amount_text_def Let_def)
qed

lemma parse_amount_amount_text:
  "parse_amount (amount_text a d) d
     = a - radix_val 10 (drop 4 (fixed_digits d (a mod 10 ^ d)))"
proof -
  let ?r = "a mod 10 ^ d"
  let ?q = "a div 10 ^ d"
  let ?p = "fixed_digits d ?r"
  let ?t = "take 4 ?p"
  let ?f = "strip_trailing_zeros ?t"
  let ?ip = "nat_to_radix 10 ?q"
  have lt: "length ?t \<le> d" by (simp add: length_fixed_digits)
  have lf: "length ?f \<le> length ?t" by (rule length_strip_trailing_zeros)
  have nodot_ip: "CHR ''.'' \<notin> set ?ip" by (rule nat_to_radix_no_dot)
  have split_ip: "takeWhile (\<lambda>c. c \<noteq> CHR ''.'') ?ip = ?ip"
    "dropWhile (\<lambda>c. c \<noteq> CHR ''.'') ?ip = []"
    using nodot_ip by auto
  have all_ip: "\<And>x. x \<in> set ?ip \<Longrightarrow> x \<noteq> CHR ''.''"
    using nodot_ip by auto
  have split_dot: "takeWhile (\<lambda>c. c \<noteq> CHR ''.'') (?ip @ ''.'' @ ?f) = ?ip"
    "dropWhile (\<lambda>c. c \<noteq> CHR ''.'') (?ip @ ''.'' @ ?f) = ''.'' @ ?f"
    by (simp_all add: takeWhile_append2 [OF all_ip] dropWhile_append2 [OF all_ip])
  have parts: "parse_amount (amount_text a d) d
      = ?q * 10 ^ d + radix_val 10 (?f @ replicate (d - length ?f) CHR ''0'')"
  proof (cases "?f = []")
    case True
    then show ?thesis
      by (simp add: parse_amount_def amount_text_def Let_def split_ip radix_val_nat_to_radix)
  next
    case False
    then show ?thesis
      by (simp add: parse_amount_def amount_text_def Let_def split_dot radix_val_nat_to_radix
          del: append.simps) simp
  qed
  have "?f @ replicate (d - length ?f) CHR ''0''
        = (?f @ replicate (length ?t - length ?f) CHR ''0'') @ replicate (d - length ?t) CHR ''0''"
    using lt lf by (simp add: replicate_add [symmetric])
  also have "\<dots> = ?t @ replicate (d - length ?t) CHR ''0''"
    by (simp only: strip_trailing_zeros_restore)
  finally have frac: "radix_val 10 (?f @ replicate (d - length ?f) CHR ''0'')
        = radix_val 10 ?t * 10 ^ (d - length ?t)"
    by (simp add: radix_val_append radix_val_replicate_0)
  have len: "d - length ?t = length (drop 4 ?p)"
    by (simp add: length_fixed_digits)
  have "radix_val 10 ?p = radix_val 10 ?t * 10 ^ length (drop 4 ?p) + radix_val 10 (drop 4 ?p)"
    using radix_val_append [of 10 ?t "drop 4 ?p"] by simp
  then have r: "?r = radix_val 10 ?t * 10 ^ (d - length ?t) + radix_val 10 (drop 4 ?p)"
    by (simp add: length_fixed_digits radix_val_fixed_digits min_def radix_val_Nil)
  have a: "a = ?q * 10 ^ d + ?r"
    by (rule div_mult_mod_eq [symmetric])
  have "parse_amount (amount_text a d) d + radix_val 10 (drop 4 ?p) = a"
    unfolding parts frac using r a by linarith
  then show ?thesis by linarith
qed

lemma drop4_bound:
  "radix_val 10 (drop 4 (fixed_digits d r)) < 10 ^ (d - 4)"
proof -
  have "list_all (is_digit 10) (drop 4 (fixed_digits d r))"
    using digits_fixed_digits [of d r] by (auto simp: list_all_iff dest: in_set_dropD)
  then have "radix_val 10 (drop 4 (fixed_digits d r)) < 10 ^ length (drop 4 (fixed_digits d r))"
    by (rule radix_val_bound) simp
  then show ?thesis by (simp add: length_fixed_digits)
qed

lemma drop4_le: "radix_val 10 (drop 4 (fixed_digits d (a mod 10 ^ d))) \<le> a"
proof -
  let ?p = "fixed_digits d (a mod 10 ^ d)"
  have "radix_val 10 ?p = radix_val 10 (take 4 ?p) * 10 ^ length (drop 4 ?p) + radix_val 10 (drop 4 ?p)"
    using radix_val_append [of 10 "take 4 ?p" "drop 4 ?p"] by simp
  then have "radix_val 10 (drop 4 ?p) \<le> a mod 10 ^ d"
    by (simp add: radix_val_fixed_digits)
  also have "\<dots> \<le> a" by simp
  finally show ?thesis .
qed

section \<open>The formatter meets its contract\<close>

text \<open>
  Claim C7.  For a non-negative amount \<open>a\<close> (given in any form \<open>BigInt\<close> accepts) and a
  non-negative decimal count \<open>d\<close>, \<open>formatAmount\<close> returns the text of the contract: the
  integer part is the decimal numeral of \<open>a div 10\<^sup>d\<close>, the fractional part is
  \<open>a mod 10\<^sup>d\<close> written with exactly \<open>d\<close> digits, cut to its first four and stripped of
  trailing zeros, and the point is written only before a non-empty fractional part.
  Quotient and remainder are exact integers: the numeral read back is \<open>a div 10\<^sup>d\<close>,
  the \<open>d\<close> digits read back are \<open>a mod 10\<^sup>d\<close>, and neither part contains a point.
\<close>

theorem formatAmount_contract:
  assumes "to_bigint atomic = Inr a" and "0 \<le> a" and "0 \<le> d"
  shows "formatAmount atomic (JNum d) = Inr (amount_text (nat a) (nat d))
       \<and> radix_val 10 (nat_to_radix 10 (nat a div 10 ^ nat d)) = nat a div 10 ^ nat d
       \<and> length (fixed_digits (nat d) (nat a mod 10 ^ nat d)) = nat d
       \<and> radix_val 10 (fixed_digits (nat d) (nat a mod 10 ^ nat d)) = nat a mod 10 ^ nat d
       \<and> CHR ''.'' \<notin> set (nat_to_radix 10 (nat a div 10 ^ nat d))
       \<and> CHR ''.'' \<notin> set (strip_trailing_zeros (take 4 (fixed_digits (nat d) (nat a mod 10 ^ nat d))))"
proof -
  have "CHR ''.'' \<notin> set (take 4 (fixed_digits (nat d) (nat a mod 10 ^ nat d)))"
    using fixed_digits_no_dot [of "nat d" "nat a mod 10 ^ nat d"]
    by (auto dest: in_set_takeD)
  then have "CHR ''.'' \<notin> set (strip_trailing_zeros (take 4 (fixed_digits (nat d) (nat a mod 10 ^ nat d))))"
    by (rule strip_no_dot)
  then show ?thesis
    using formatAmount_amount_text [OF assms]
    by (simp add: radix_val_nat_to_radix length_fixed_digits radix_val_fixed_digits
        nat_to_radix_no_dot)
qed

theorem formatAmount_contract_witness:
  "to_bigint (JStr ''1234567'') = Inr 1234567 \<and> (0::int) \<le> 1234567 \<and> (0::int) \<le> 6
   \<and> formatAmount (JStr ''1234567'') (JNum 6) = Inr ''1.2345''
   \<and> to_bigint (JStr ''2000000'') = Inr 2000000
   \<and> formatAmount (JStr ''2000000'') (JNum 6) = Inr ''2''"
proof -
  have h1: "to_bigint (JStr ''1234567'') = Inr 1234567" by code_simp
  have h2: "to_bigint (JStr ''2000000'') = Inr 2000000" by code_simp
  have t1: "amount_text (nat 1234567) (nat 6) = ''1.2345''" by code_simp
  have t2: "amount_text (nat 2000000) (nat 6) = ''2''" by code_simp
  have c1: "formatAmount (JStr ''1234567'') (JNum 6) = Inr (amount_text (nat 1234567) (nat 6))"
    by (rule formatAmount_contract [OF h1, THEN conjunct1]) simp_all
  have c2: "formatAmount (JStr ''2000000'') (JNum 6) = Inr (amount_text (nat 2000000) (nat 6))"
    by (rule formatAmount_contract [OF h2, THEN conjunct1]) simp_all
  show ?thesis
    using h1 h2 c1 [unfolded t1] c2 [unfolded t2] by (intro conjI) simp_all
qed

text \<open>
  Claim C8.  For a non-negative amount \<open>a\<close> and a decimal count \<open>d\<close> from 0 to 36, the
  formatter's output read back (the integer part times \<open>10\<^sup>d\<close> plus the fractional
  digits scaled to atomic units) never exceeds \<open>a\<close>; it falls short of \<open>a\<close> by less than
  \<open>10\<^sup>d\<^sup>-\<^sup>4\<close> when \<open>d > 4\<close> and is exactly \<open>a\<close> when \<open>d \<le> 4\<close>.
\<close>

theorem formatAmount_round_trip:
  assumes "to_bigint atomic = Inr a" and "0 \<le> a" and "0 \<le> d" and "d \<le> 36"
  shows "\<exists>s. formatAmount atomic (JNum d) = Inr s
           \<and> int (parse_amount s (nat d)) \<le> a
           \<and> (if 4 < d then a - int (parse_amount s (nat d)) < 10 ^ (nat d - 4)
               else int (parse_amount s (nat d)) = a)"
proof -
  let ?s = "amount_text (nat a) (nat d)"
  let ?e = "radix_val 10 (drop 4 (fixed_digits (nat d) (nat a mod 10 ^ nat d)))"
  have fmt: "formatAmount atomic (JNum d) = Inr ?s"
    using assms(1-3) by (rule formatAmount_amount_text)
  have p: "parse_amount ?s (nat d) = nat a - ?e"
    by (rule parse_amount_amount_text)
  have le: "?e \<le> nat a" by (rule drop4_le)
  have lt: "?e < 10 ^ (nat d - 4)" by (rule drop4_bound)
  have rb: "int (parse_amount ?s (nat d)) = a - int ?e"
    using p le assms(2) by simp
  have small: "d \<le> 4 \<Longrightarrow> ?e = 0"
    by (simp add: length_fixed_digits radix_val_Nil)
  have "int (parse_amount ?s (nat d)) \<le> a"
    using rb by simp
  moreover have "4 < d \<Longrightarrow> a - int (parse_amount ?s (nat d)) < 10 ^ (nat d - 4)"
  proof -
    have "int ?e < int (10 ^ (nat d - 4))" using lt by (simp only: of_nat_less_iff)
    then show ?thesis using rb by simp
  qed
  moreover have "\<not> 4 < d \<Longrightarrow> int (parse_amount ?s (nat d)) = a"
    using rb small by simp
  ultimately show ?thesis using fmt by auto
qed

theorem formatAmount_round_trip_witness:
  "to_bigint (JStr ''1234567'') = Inr 1234567 \<and> (0::int) \<le> 1234567 \<and> (0::int) \<le> 6 \<and> (6::int) \<le> 36
   \<and> (\<exists>s. formatAmount (JStr ''1234567'') (JNum 6) = Inr s
         \<and> int (parse_amount s (nat 6)) \<le> 1234567
         \<and> 1234567 - int (parse_amount s (nat 6)) < 10 ^ (nat 6 - 4))
   \<and> (\<exists>s. formatAmount (JStr ''1234567'') (JNum 3) = Inr s
         \<and> int (parse_amount s (nat 3)) = 1234567)"
proof -
  have h: "to_bigint (JStr ''1234567'') = Inr 1234567" by code_simp
  have a: "\<exists>s. formatAmount (JStr ''1234567'') (JNum 6) = Inr s
         \<and> int (parse_amount s (nat 6)) \<le> 1234567
         \<and> 1234567 - int (parse_amount s (nat 6)) < 10 ^ (nat 6 - 4)"
    using formatAmount_round_trip [OF h, of 6] by simp
  have b: "\<exists>s. formatAmount (JStr ''1234567'') (JNum 3) = Inr s
         \<and> int (parse_amount s (nat 3)) = 1234567"
    using formatAmount_round_trip [OF h, of 3] by auto
  show ?thesis using h a b by (intro conjI) simp_all
qed

section \<open>The provider interceptor: pass-through and failure\<close>

lemma call_provider_eq:
  "call_provider H req s =
     (fst (origRequest H req (outside s)),
      s\<lparr>outside := snd (origRequest H req (outside s)), issued := issued s @ [ProviderCall req]\<rparr>)"
  by (simp add: call_provider_def split: prod.split)

lemma permit_types_eq:
  "JObj [(''types'', permit_types), (''primaryType'', JStr ''Permit''),
         (''domain'', JObj [(''name'', nm), (''version'', ver), (''chainId'', cid), (''verifyingContract'', vc)]),
         (''message'', JObj [(''owner'', ow), (''spender'', sp), (''value'', v), (''nonce'', n), (''deadline'', dl)])]
   = Permit_typed_data nm ver cid vc ow sp v n dl"
  by (simp add: Permit_typed_data_def permit_types_def field_def)

lemma get_truthy: "truthy v \<Longrightarrow> get v k = Inr (opt_get v k)"
  by (cases v) (simp_all add: opt_get_def)

lemma truthy_jor_obj: "truthy (jor v (JObj ps))"
  by (simp add: jor_def)

lemma get_primaryType: "opt_get data ''primaryType'' = JStr t \<Longrightarrow> get data k = Inr (opt_get data k)"
  by (cases data) (simp_all add: opt_get_def)

lemma request_A_pass:
  assumes "get args ''method'' = Inr m"
    and "m \<noteq> JStr ''eth_signTypedData_v4'' \<or> \<not> is_transfer_authorization H args"
  shows "request_A H TOKEN args s = call_provider H args s"
  using assms
  by (auto simp: request_A_def guarded_A_def is_transfer_authorization_def split: sum.splits)

lemma request_B_pass:
  assumes "get args ''method'' = Inr m"
    and "m \<noteq> JStr ''eth_signTypedData_v4'' \<or> \<not> is_transfer_authorization H args"
  shows "request_B H TOKEN args s = call_provider H args s"
  using assms
  by (auto simp: request_B_def guarded_B_def is_transfer_authorization_def split: sum.splits)

lemma res_bind_Inr [simp]: "res_bind (Inr x) f = f x"
  by (simp add: res_bind_def)

lemma res_bind_Inl [simp]: "res_bind (Inl e) f = Inl e"
  by (simp add: res_bind_def)

lemma permit_branch_success:
  assumes T: "truthy TOKEN"
    and ptype: "opt_get data ''primaryType'' = JStr ''TransferWithAuthorization''"
    and signer: "param0 args = Inr (JStr owner)"
    and dom: "domain = jor (opt_get data ''domain'') (JObj [])"
    and msg: "msg = jor (opt_get data ''message'') (JObj [])"
    and nonce_read:
      "origRequest H
         (JObj [(''method'', JStr ''eth_call''),
                (''params'', JArr [JObj [(''to'', opt_get TOKEN ''address''),
                                         (''data'', JStr (''0x7ecebe00'' @ padStart 64 (drop 2 owner)))],
                                   JStr ''latest''])]) (outside s) = (Inr nonceHex, e1)"
    and typed:
      "typed = Permit_typed_data
                 (jor (opt_get TOKEN ''name'') (opt_get domain ''name''))
                 (jor (jor (opt_get TOKEN ''version'') (opt_get domain ''version'')) (JStr ''1''))
                 (opt_get domain ''chainId'')
                 (opt_get TOKEN ''address'')
                 (JStr owner)
                 (jor (opt_get msg ''to'') (opt_get msg ''recipient''))
                 (opt_get msg ''value'')
                 (parseInt16 nonceHex)
                 (JStr (to_str (JNum (Date_now H (outside s) div 1000 + 3600))))"
    and signing:
      "origRequest H
         (JObj [(''method'', JStr ''eth_signTypedData_v4''),
                (''params'', JArr [JStr owner, JSON_stringify typed])]) e1 = (Inr sig, e2)"
  shows "permit_branch H TOKEN args data s =
     (Inr sig,
      s\<lparr>x402_eip2612_permit :=
           JObj [(''owner'', JStr owner),
                 (''spender'', jor (opt_get msg ''to'') (opt_get msg ''recipient'')),
                 (''value'', opt_get msg ''value''),
                 (''nonce'', parseInt16 nonceHex),
                 (''deadline'', JStr (to_str (JNum (Date_now H (outside s) div 1000 + 3600)))),
                 (''signature'', sig)],
         x402_eip2612_transfer :=
           JObj [(''from'', JStr owner),
                 (''to'', jor (opt_get msg ''to'') (opt_get msg ''recipient'')),
                 (''amount'', opt_get msg ''value'')],
         outside := e2,
         issued := issued s @
           [ProviderCall
              (JObj [(''method'', JStr ''eth_call''),
                     (''params'', JArr [JObj [(''to'', opt_get TOKEN ''address''),
                                              (''data'', JStr (''0x7ecebe00'' @ padStart 64 (drop 2 owner)))],
                                        JStr ''latest''])]),
            ProviderCall
              (JObj [(''method'', JStr ''eth_signTypedData_v4''),
                     (''params'', JArr [JStr owner, JSON_stringify typed])])]\<rparr>)"
proof -
  have d: "get data k = Inr (opt_get data k)" for k
    using ptype by (rule get_primaryType)
  have tk: "get TOKEN k = Inr (opt_get TOKEN k)" for k
    using T by (rule get_truthy)
  have dk: "get domain k = Inr (opt_get domain k)" for k
    unfolding dom by (rule get_truthy) (rule truthy_jor_obj)
  have mk: "get msg k = Inr (opt_get msg k)" for k
    unfolding msg by (rule get_truthy) (rule truthy_jor_obj)
  show ?thesis
    using signer nonce_read signing
    unfolding permit_branch_def typed
    by (simp add: d tk dk mk dom [symmetric] msg [symmetric] call_provider_def Let_def
        PERMIT_DEADLINE_def permit_types_eq)
qed

lemma permit_branch_frame:
  "permit_branch H TOKEN args data s = (r, s') \<Longrightarrow>
     x402 s' = x402 s \<and> x402_nativePaymentData s' = x402_nativePaymentData s"
  unfolding permit_branch_def
  by (auto simp: Let_def call_provider_eq split: sum.splits prod.splits)

lemma permit_branch_throw:
  "permit_branch H TOKEN args data s = (Inl e, s') \<Longrightarrow>
     x402_eip2612_permit s' = x402_eip2612_permit s
     \<and> x402_eip2612_transfer s' = x402_eip2612_transfer s"
  unfolding permit_branch_def
  by (auto simp: Let_def call_provider_eq split: sum.splits prod.splits)

lemma native_branch_frame:
  "native_branch H args data s = (r, s') \<Longrightarrow>
     x402 s' = x402 s \<and> x402_eip2612_permit s' = x402_eip2612_permit s
     \<and> x402_eip2612_transfer s' = x402_eip2612_transfer s"
  unfolding native_branch_def
  by (auto simp: Let_def call_provider_eq split: sum.splits prod.splits)

lemma native_branch_throw:
  "native_branch H args data s = (Inl e, s') \<Longrightarrow>
     x402_nativePaymentData s' = x402_nativePaymentData s"
  unfolding native_branch_def
  by (auto simp: Let_def call_provider_eq split: sum.splits prod.splits)

lemma guarded_A_non_native:
  "\<not> IS_NATIVE TOKEN \<Longrightarrow> guarded_A H TOKEN args s = guarded_B H TOKEN args s"
  by (simp add: guarded_A_def guarded_B_def split: sum.split)

lemma request_A_non_native:
  "\<not> IS_NATIVE TOKEN \<Longrightarrow> request_A H TOKEN args s = request_B H TOKEN args s"
  by (simp add: request_A_def request_B_def guarded_A_non_native split: sum.split)

lemma guarded_B_throw:
  "guarded_B H TOKEN args s = (Inl e, s') \<Longrightarrow>
     x402 s' = x402 s \<and> x402_nativePaymentData s' = x402_nativePaymentData s
     \<and> x402_eip2612_permit s' = x402_eip2612_permit s
     \<and> x402_eip2612_transfer s' = x402_eip2612_transfer s"
  unfolding guarded_B_def
  by (auto split: sum.splits prod.splits if_splits
      dest: permit_branch_frame permit_branch_throw)

lemma guarded_A_throw:
  "guarded_A H TOKEN args s = (Inl e, s') \<Longrightarrow>
     x402 s' = x402 s \<and> x402_nativePaymentData s' = x402_nativePaymentData s
     \<and> x402_eip2612_permit s' = x402_eip2612_permit s
     \<and> x402_eip2612_transfer s' = x402_eip2612_transfer s"
  unfolding guarded_A_def
  by (auto split: sum.splits prod.splits if_splits
      dest: permit_branch_frame permit_branch_throw native_branch_frame native_branch_throw)

text \<open>
  Claim C3.  A provider call whose \<open>method\<close> is not \<open>eth_signTypedData_v4\<close>, or whose
  second parameter does not parse to a payload of primary type
  \<open>TransferWithAuthorization\<close>, is handed to the original entry point once, with the
  same argument; the wrapped call returns the original's result, value or error alike,
  and leaves the page state as the original left the outside world, in both scripts.
\<close>

theorem pass_through:
  assumes "get args ''method'' = Inr m"
    and "m \<noteq> JStr ''eth_signTypedData_v4'' \<or> \<not> is_transfer_authorization H args"
  shows "request_A H TOKEN args s =
           (fst (origRequest H args (outside s)),
            s\<lparr>outside := snd (origRequest H args (outside s)),
              issued := issued s @ [ProviderCall args]\<rparr>)
       \<and> request_B H TOKEN args s =
           (fst (origRequest H args (outside s)),
            s\<lparr>outside := snd (origRequest H args (outside s)),
              issued := issued s @ [ProviderCall args]\<rparr>)"
  using request_A_pass [OF assms] request_B_pass [OF assms]
  by (simp add: call_provider_eq)

text \<open>
  Claim C4.  When the guarded block of a signing call throws, wherever it throws
  (reading the parameters, parsing, the nonce read, the reshaping, the signing or
  sending call), the wrapped provider stores no artifact, lets no exception of the
  block out, hands the caller's own request to the original entry point and returns
  what that call returns, in both scripts.
\<close>

theorem fail_open:
  assumes "get args ''method'' = Inr (JStr ''eth_signTypedData_v4'')"
  shows "(guarded_A H TOKEN args s = (Inl e, s') \<longrightarrow>
            request_A H TOKEN args s =
              (fst (origRequest H args (outside s')),
               s'\<lparr>outside := snd (origRequest H args (outside s')),
                  issued := issued s' @ [ProviderCall args]\<rparr>)
            \<and> x402_nativePaymentData s' = x402_nativePaymentData s
            \<and> x402_eip2612_permit s' = x402_eip2612_permit s
            \<and> x402_eip2612_transfer s' = x402_eip2612_transfer s)
       \<and> (guarded_B H TOKEN args s = (Inl e, s') \<longrightarrow>
            request_B H TOKEN args s =
              (fst (origRequest H args (outside s')),
               s'\<lparr>outside := snd (origRequest H args (outside s')),
                  issued := issued s' @ [ProviderCall args]\<rparr>)
            \<and> x402_nativePaymentData s' = x402_nativePaymentData s
            \<and> x402_eip2612_permit s' = x402_eip2612_permit s
            \<and> x402_eip2612_transfer s' = x402_eip2612_transfer s)"
proof (intro conjI impI)
  assume g: "guarded_A H TOKEN args s = (Inl e, s')"
  show "request_A H TOKEN args s =
          (fst (origRequest H args (outside s')),
           s'\<lparr>outside := snd (origRequest H args (outside s')),
              issued := issued s' @ [ProviderCall args]\<rparr>)"
    using assms g by (simp add: request_A_def call_provider_eq)
  show "x402_nativePaymentData s' = x402_nativePaymentData s"
    using guarded_A_throw [OF g] by simp
  show "x402_eip2612_permit s' = x402_eip2612_permit s"
    using guarded_A_throw [OF g] by simp
  show "x402_eip2612_transfer s' = x402_eip2612_transfer s"
    using guarded_A_throw [OF g] by simp
next
  assume g: "guarded_B H TOKEN args s = (Inl e, s')"
  show "request_B H TOKEN args s =
          (fst (origRequest H args (outside s')),
           s'\<lparr>outside := snd (origRequest H args (outside s')),
              issued := issued s' @ [ProviderCall args]\<rparr>)"
    using assms g by (simp add: request_B_def call_provider_eq)
  show "x402_nativePaymentData s' = x402_nativePaymentData s"
    using guarded_B_throw [OF g] by simp
  show "x402_eip2612_permit s' = x402_eip2612_permit s"
    using guarded_B_throw [OF g] by simp
  show "x402_eip2612_transfer s' = x402_eip2612_transfer s"
    using guarded_B_throw [OF g] by simp
qed

theorem pass_through_witness:
  "get (JObj [(''method'', JStr ''eth_chainId'')]) ''method'' = Inr (JStr ''eth_chainId'')
   \<and> JStr ''eth_chainId'' \<noteq> JStr ''eth_signTypedData_v4''
   \<and> request_A (mock_host False) erc20_token (JObj [(''method'', JStr ''eth_chainId'')]) fresh_page
       = (Inl (Thrown (JStr ''unsupported method'')),
          fresh_page\<lparr>outside := 1,
                      issued := [ProviderCall (JObj [(''method'', JStr ''eth_chainId'')])]\<rparr>)
   \<and> \<not> is_transfer_authorization (mock_host False)
          (JObj [(''method'', JStr ''eth_signTypedData_v4''),
                 (''params'', JArr [JStr ''0xOwner'', JStr ''not json''])])
   \<and> request_B (mock_host False) erc20_token
         (JObj [(''method'', JStr ''eth_signTypedData_v4''),
                (''params'', JArr [JStr ''0xOwner'', JStr ''not json''])]) fresh_page
       = (Inr (JStr ''0xsig''),
          fresh_page\<lparr>outside := 1,
                      issued := [ProviderCall
                                   (JObj [(''method'', JStr ''eth_signTypedData_v4''),
                                          (''params'', JArr [JStr ''0xOwner'', JStr ''not json''])])]\<rparr>)"
proof -
  let ?a1 = "JObj [(''method'', JStr ''eth_chainId'')]"
  let ?a2 = "JObj [(''method'', JStr ''eth_signTypedData_v4''),
                   (''params'', JArr [JStr ''0xOwner'', JStr ''not json''])]"
  have m1: "get ?a1 ''method'' = Inr (JStr ''eth_chainId'')"
    by (simp add: lookup_def)
  have n1: "JStr ''eth_chainId'' \<noteq> JStr ''eth_signTypedData_v4''"
    by simp
  have m2: "get ?a2 ''method'' = Inr (JStr ''eth_signTypedData_v4'')"
    by (simp add: lookup_def)
  have n2: "\<not> is_transfer_authorization (mock_host False) ?a2"
    by code_simp
  have o1: "origRequest (mock_host False) ?a1 (outside fresh_page)
              = (Inl (Thrown (JStr ''unsupported method'')), 1)"
    by (simp add: mock_host_def fresh_page_def opt_get_def lookup_def)
  have o2: "origRequest (mock_host False) ?a2 (outside fresh_page) = (Inr (JStr ''0xsig''), 1)"
    by (simp add: mock_host_def fresh_page_def opt_get_def lookup_def)
  have i: "issued fresh_page = []"
    by (simp add: fresh_page_def)
  have r1: "request_A (mock_host False) erc20_token ?a1 fresh_page
       = (Inl (Thrown (JStr ''unsupported method'')),
          fresh_page\<lparr>outside := 1, issued := [ProviderCall ?a1]\<rparr>)"
    using pass_through [OF m1 disjI1, OF n1, of "mock_host False" erc20_token fresh_page]
    by (simp add: o1 i)
  have r2: "request_B (mock_host False) erc20_token ?a2 fresh_page
       = (Inr (JStr ''0xsig''),
          fresh_page\<lparr>outside := 1, issued := [ProviderCall ?a2]\<rparr>)"
    using pass_through [OF m2 disjI2, OF n2, of erc20_token fresh_page]
    by (simp add: o2 i)
  show ?thesis
    using m1 n2 r1 r2 by simp
qed

theorem fail_open_witness:
  "get (sign_call example_erc20) ''method'' = Inr (JStr ''eth_signTypedData_v4'')
   \<and> guarded_A (mock_host True) erc20_token (sign_call example_erc20) fresh_page
       = (Inl (Thrown (JStr ''execution reverted'')),
          fresh_page\<lparr>outside := 1,
             issued := [ProviderCall
               (JObj [(''method'', JStr ''eth_call''),
                      (''params'',
                         JArr [JObj [(''to'', JStr ''0xToken''),
                                     (''data'', JStr ''0x7ecebe0000000000000000000000000000000000000000000000000000000000000Owner'')],
                               JStr ''latest''])])]\<rparr>)
   \<and> fst (request_A (mock_host True) erc20_token (sign_call example_erc20) fresh_page)
       = Inr (JStr ''0xsig'')
   \<and> x402_eip2612_permit (snd (request_A (mock_host True) erc20_token (sign_call example_erc20) fresh_page))
       = JUndef
   \<and> last (issued (snd (request_A (mock_host True) erc20_token (sign_call example_erc20) fresh_page)))
       = ProviderCall (sign_call example_erc20)
   \<and> fst (request_B (mock_host True) erc20_token (sign_call example_erc20) fresh_page)
       = Inr (JStr ''0xsig'')"
proof -
  let ?s1 = "fresh_page\<lparr>outside := 1,
             issued := [ProviderCall
               (JObj [(''method'', JStr ''eth_call''),
                      (''params'',
                         JArr [JObj [(''to'', JStr ''0xToken''),
                                     (''data'', JStr ''0x7ecebe0000000000000000000000000000000000000000000000000000000000000Owner'')],
                               JStr ''latest''])])]\<rparr>"
  have m: "get (sign_call example_erc20) ''method'' = Inr (JStr ''eth_signTypedData_v4'')"
    by (simp add: sign_call_def lookup_def)
  have gA: "guarded_A (mock_host True) erc20_token (sign_call example_erc20) fresh_page
       = (Inl (Thrown (JStr ''execution reverted'')), ?s1)"
    by code_simp
  have gB: "guarded_B (mock_host True) erc20_token (sign_call example_erc20) fresh_page
       = (Inl (Thrown (JStr ''execution reverted'')), ?s1)"
    by code_simp
  have o: "origRequest (mock_host True) (sign_call example_erc20) (Suc 0)
             = (Inr (JStr ''0xsig''), 2)"
    by (simp add: mock_host_def sign_call_def opt_get_def lookup_def)
  have p: "x402_eip2612_permit fresh_page = JUndef"
    by (simp add: fresh_page_def)
  note t = fail_open [OF m, of "mock_host True" erc20_token fresh_page
      "Thrown (JStr ''execution reverted'')" ?s1]
  have rA: "request_A (mock_host True) erc20_token (sign_call example_erc20) fresh_page
       = (Inr (JStr ''0xsig''),
          ?s1\<lparr>outside := 2, issued := issued ?s1 @ [ProviderCall (sign_call example_erc20)]\<rparr>)"
    using t gA by (simp add: o)
  have rB: "request_B (mock_host True) erc20_token (sign_call example_erc20) fresh_page
       = (Inr (JStr ''0xsig''),
          ?s1\<lparr>outside := 2, issued := issued ?s1 @ [ProviderCall (sign_call example_erc20)]\<rparr>)"
    using t gB by (simp add: o)
  show ?thesis
    using m gA by (simp add: rA rB p)
qed

text \<open>
  A call that hands over no request object has no \<open>method\<close> to read: reading it throws
  before the original entry point is reached, in both scripts.
\<close>

lemma request_without_object:
  "request_A H TOKEN JUndef s = (Inl TypeError, s) \<and> request_A H TOKEN JNull s = (Inl TypeError, s)
   \<and> request_B H TOKEN JUndef s = (Inl TypeError, s) \<and> request_B H TOKEN JNull s = (Inl TypeError, s)"
  by (simp add: request_A_def request_B_def)

section \<open>The provider interceptor: the two conversions\<close>

lemma radix_val_nat_to_radix_gen:
  "2 \<le> b \<Longrightarrow> b \<le> 16 \<Longrightarrow> radix_val b (nat_to_radix b n) = n"
proof (induction b n rule: nat_to_radix.induct)
  case (1 b n)
  show ?case
  proof (cases "n < b")
    case True
    then have "digit_val (digit_char n) = Some n"
      using "1.prems" by (intro digit_val_digit_char) simp
    then show ?thesis using True
      by (simp add: nat_to_radix.simps radix_val_def)
  next
    case False
    then have ih: "radix_val b (nat_to_radix b (n div b)) = n div b"
      using 1 by simp
    have "n mod b < b"
      using "1.prems" by simp
    then have "n mod b < 16"
      using "1.prems" by linarith
    then have "digit_val (digit_char (n mod b)) = Some (n mod b)"
      by (rule digit_val_digit_char)
    then show ?thesis using False "1.prems"
      by (simp add: nat_to_radix.simps [of b n] radix_val_snoc ih)
  qed
qed

lemma is_digit10_range: "is_digit 10 c \<Longrightarrow> 48 \<le> (of_char c :: nat) \<and> (of_char c :: nat) \<le> 57"
  by (auto simp: is_digit_def digit_val_def Let_def split: if_splits)

lemma is_digit10_plain:
  assumes "is_digit 10 c"
  shows "\<not> js_whitespace c" and "c \<noteq> CHR ''-''" and "c \<noteq> CHR ''+''"
    and "c \<noteq> CHR ''x''" and "c \<noteq> CHR ''X''" and "c \<noteq> CHR ''o''" and "c \<noteq> CHR ''O''"
    and "c \<noteq> CHR ''b''" and "c \<noteq> CHR ''B''"
  using is_digit10_range [OF assms] by (auto simp: js_whitespace_def)

lemma dropWhile_hd: "xs \<noteq> [] \<Longrightarrow> \<not> P (hd xs) \<Longrightarrow> dropWhile P xs = xs"
  by (cases xs) simp_all

lemma trim_digits:
  assumes "v \<noteq> []" and "list_all (is_digit 10) v"
  shows "trim v = v"
proof -
  have "hd v \<in> set v" using assms(1) by simp
  then have a: "\<not> js_whitespace (hd v)"
    using assms(2) is_digit10_plain(1) by (auto simp: list_all_iff)
  have "hd (rev v) \<in> set v" using assms(1) by (simp add: hd_rev)
  then have b: "\<not> js_whitespace (hd (rev v))"
    using assms(2) is_digit10_plain(1) by (auto simp: list_all_iff)
  show ?thesis
    using assms(1) a b by (simp add: trim_def dropWhile_hd)
qed

lemma string_to_bigint_decimal:
  assumes "v \<noteq> []" and "list_all (is_digit 10) v"
  shows "string_to_bigint v = Inr (int (radix_val 10 v))"
proof -
  obtain c cs where v: "v = c # cs" using assms(1) by (cases v) auto
  have c: "is_digit 10 c" using assms(2) v by simp
  have p: "take 2 v \<noteq> ''0x''" "take 2 v \<noteq> ''0X''" "take 2 v \<noteq> ''0o''" "take 2 v \<noteq> ''0O''"
    "take 2 v \<noteq> ''0b''" "take 2 v \<noteq> ''0B''"
    using assms(2) v is_digit10_plain by (cases cs; auto)+
  have h: "hd v \<noteq> CHR ''-''" "hd v \<noteq> CHR ''+''"
    using is_digit10_plain(2,3) [OF c] v by simp_all
  show ?thesis
    using assms p h
    by (simp add: string_to_bigint_def trim_digits parse_digits_def Let_def)
qed

lemma native_branch_success:
  assumes ptype: "opt_get data ''primaryType'' = JStr ''TransferWithAuthorization''"
    and signer: "param0 args = Inr signer"
    and msg: "msg = jor (opt_get data ''message'') (JObj [])"
    and val: "to_bigint (opt_get msg ''value'') = Inr n"
    and send:
      "origRequest H
         (JObj [(''method'', JStr ''eth_sendTransaction''),
                (''params'', JArr [JObj [(''from'', signer), (''to'', opt_get msg ''to''),
                                         (''value'', JStr (''0x'' @ int_to_radix 16 n))]])])
         (outside s) = (Inr txHash, e1)"
  shows "native_branch H args data s =
     (Inr txHash,
      s\<lparr>x402_nativePaymentData :=
           JObj [(''txHash'', txHash), (''from'', signer), (''to'', opt_get msg ''to''),
                 (''amountWei'', JStr (to_str (opt_get msg ''value'')))],
         outside := e1,
         issued := issued s @
           [ProviderCall
              (JObj [(''method'', JStr ''eth_sendTransaction''),
                     (''params'', JArr [JObj [(''from'', signer), (''to'', opt_get msg ''to''),
                                              (''value'', JStr (''0x'' @ int_to_radix 16 n))]])])]\<rparr>)"
proof -
  have d: "get data k = Inr (opt_get data k)" for k
    using ptype by (rule get_primaryType)
  have mk: "get msg k = Inr (opt_get msg k)" for k
    unfolding msg by (rule get_truthy) (rule truthy_jor_obj)
  show ?thesis
    using signer val send
    unfolding native_branch_def
    by (simp add: d mk msg [symmetric] call_provider_def Let_def)
qed

text \<open>
  Claim C1.  For a non-native token, a signing call whose payload has primary type
  \<open>TransferWithAuthorization\<close> and whose first parameter is the signer's address makes
  the wrapped provider read the nonce and then issue exactly one signing call, for typed
  data of primary type \<open>Permit\<close> with domain \<open>name\<close> (the token's name, else the
  original domain's), \<open>version\<close> (the token's, else the original's, else \<open>1\<close>),
  \<open>chainId\<close> (the original's) and \<open>verifyingContract\<close> (the token's address), and with
  message \<open>owner\<close> (the signer), \<open>spender\<close> (the original destination), \<open>value\<close> (the
  original value), \<open>nonce\<close> (the integer the nonce read returned) and \<open>deadline\<close> (the
  current time in seconds plus 3600, as a string), all in this order.  When the reads
  and the signing succeed it returns the signature as it is and stores the permit
  artifact with the same owner, spender, value, nonce and deadline and the signature,
  and the transfer intent \<open>from\<close>, \<open>to\<close>, \<open>amount\<close>.  Both scripts do so.
\<close>

theorem permit_conversion:
  assumes "truthy TOKEN" and "\<not> IS_NATIVE TOKEN"
    and "get args ''method'' = Inr (JStr ''eth_signTypedData_v4'')"
    and "typed_data H args = Inr data"
    and "opt_get data ''primaryType'' = JStr ''TransferWithAuthorization''"
    and "param0 args = Inr (JStr owner)"
    and "domain = jor (opt_get data ''domain'') (JObj [])"
    and "msg = jor (opt_get data ''message'') (JObj [])"
    and "origRequest H
           (JObj [(''method'', JStr ''eth_call''),
                  (''params'', JArr [JObj [(''to'', opt_get TOKEN ''address''),
                                           (''data'', JStr (''0x7ecebe00'' @ padStart 64 (drop 2 owner)))],
                                     JStr ''latest''])]) (outside s) = (Inr nonceHex, e1)"
    and "parseInt16 nonceHex = JNum n"
    and "typed = Permit_typed_data
                   (jor (opt_get TOKEN ''name'') (opt_get domain ''name''))
                   (jor (jor (opt_get TOKEN ''version'') (opt_get domain ''version'')) (JStr ''1''))
                   (opt_get domain ''chainId'')
                   (opt_get TOKEN ''address'')
                   (JStr owner)
                   (jor (opt_get msg ''to'') (opt_get msg ''recipient''))
                   (opt_get msg ''value'')
                   (JNum n)
                   (JStr (to_str (JNum (Date_now H (outside s) div 1000 + 3600))))"
    and "origRequest H
           (JObj [(''method'', JStr ''eth_signTypedData_v4''),
                  (''params'', JArr [JStr owner, JSON_stringify typed])]) e1 = (Inr sig, e2)"
  shows "request_A H TOKEN args s =
     (Inr sig,
      s\<lparr>x402_eip2612_permit :=
           JObj [(''owner'', JStr owner),
                 (''spender'', jor (opt_get msg ''to'') (opt_get msg ''recipient'')),
                 (''value'', opt_get msg ''value''),
                 (''nonce'', JNum n),
                 (''deadline'', JStr (to_str (JNum (Date_now H (outside s) div 1000 + 3600)))),
                 (''signature'', sig)],
         x402_eip2612_transfer :=
           JObj [(''from'', JStr owner),
                 (''to'', jor (opt_get msg ''to'') (opt_get msg ''recipient'')),
                 (''amount'', opt_get msg ''value'')],
         outside := e2,
         issued := issued s @
           [ProviderCall
              (JObj [(''method'', JStr ''eth_call''),
                     (''params'', JArr [JObj [(''to'', opt_get TOKEN ''address''),
                                              (''data'', JStr (''0x7ecebe00'' @ padStart 64 (drop 2 owner)))],
                                        JStr ''latest''])]),
            ProviderCall
              (JObj [(''method'', JStr ''eth_signTypedData_v4''),
                     (''params'', JArr [JStr owner, JSON_stringify typed])])]\<rparr>)
   \<and> request_B H TOKEN args s = request_A H TOKEN args s"
proof -
  note b = permit_branch_success [OF assms(1) assms(5) assms(6) assms(7) assms(8) assms(9)
      assms(11) [folded assms(10)] assms(12)]
  have "request_B H TOKEN args s =
     (Inr sig,
      s\<lparr>x402_eip2612_permit :=
           JObj [(''owner'', JStr owner),
                 (''spender'', jor (opt_get msg ''to'') (opt_get msg ''recipient'')),
                 (''value'', opt_get msg ''value''),
                 (''nonce'', JNum n),
                 (''deadline'', JStr (to_str (JNum (Date_now H (outside s) div 1000 + 3600)))),
                 (''signature'', sig)],
         x402_eip2612_transfer :=
           JObj [(''from'', JStr owner),
                 (''to'', jor (opt_get msg ''to'') (opt_get msg ''recipient'')),
                 (''amount'', opt_get msg ''value'')],
         outside := e2,
         issued := issued s @
           [ProviderCall
              (JObj [(''method'', JStr ''eth_call''),
                     (''params'', JArr [JObj [(''to'', opt_get TOKEN ''address''),
                                              (''data'', JStr (''0x7ecebe00'' @ padStart 64 (drop 2 owner)))],
                                        JStr ''latest''])]),
            ProviderCall
              (JObj [(''method'', JStr ''eth_signTypedData_v4''),
                     (''params'', JArr [JStr owner, JSON_stringify typed])])]\<rparr>)"
    using assms(3,4,5) b
    by (simp add: request_B_def guarded_B_def assms(10) del: to_str.simps)
  then show ?thesis
    using request_A_non_native [OF assms(2), of H args s] by simp
qed

text \<open>
  Claim C5.  For a native token, a signing call whose payload has primary type
  \<open>TransferWithAuthorization\<close> and whose message value is a decimal string makes the
  wrapped provider issue a single \<open>eth_sendTransaction\<close> request with \<open>from\<close> the signer
  of the first parameter, \<open>to\<close> the destination of the original message and \<open>value\<close>
  the text \<open>0x\<close> followed by the hexadecimal numeral of the amount, whose digits read
  back give the amount.  When the request succeeds it stores
  \<open>{txHash, from, to, amountWei}\<close> with \<open>amountWei\<close> the original decimal string, and
  returns the transaction hash.
\<close>

theorem native_conversion:
  assumes "IS_NATIVE TOKEN"
    and "get args ''method'' = Inr (JStr ''eth_signTypedData_v4'')"
    and "typed_data H args = Inr data"
    and "opt_get data ''primaryType'' = JStr ''TransferWithAuthorization''"
    and "param0 args = Inr signer"
    and "msg = jor (opt_get data ''message'') (JObj [])"
    and "opt_get msg ''value'' = JStr v" and "v \<noteq> []" and "list_all (is_digit 10) v"
    and "origRequest H
           (JObj [(''method'', JStr ''eth_sendTransaction''),
                  (''params'', JArr [JObj [(''from'', signer), (''to'', opt_get msg ''to''),
                                           (''value'', JStr (''0x'' @ nat_to_radix 16 (radix_val 10 v)))]])])
           (outside s) = (Inr txHash, e1)"
  shows "request_A H TOKEN args s =
     (Inr txHash,
      s\<lparr>x402_nativePaymentData :=
           JObj [(''txHash'', txHash), (''from'', signer), (''to'', opt_get msg ''to''),
                 (''amountWei'', JStr v)],
         outside := e1,
         issued := issued s @
           [ProviderCall
              (JObj [(''method'', JStr ''eth_sendTransaction''),
                     (''params'', JArr [JObj [(''from'', signer), (''to'', opt_get msg ''to''),
                                              (''value'', JStr (''0x'' @ nat_to_radix 16 (radix_val 10 v)))]])])]\<rparr>)
   \<and> radix_val 16 (nat_to_radix 16 (radix_val 10 v)) = radix_val 10 v"
proof -
  have n: "to_bigint (opt_get msg ''value'') = Inr (int (radix_val 10 v))"
    using assms(7-9) by (simp add: string_to_bigint_decimal)
  have hex: "int_to_radix 16 (int (radix_val 10 v)) = nat_to_radix 16 (radix_val 10 v)"
    by (simp add: int_to_radix_def)
  note b = native_branch_success [OF assms(4) assms(5) assms(6) n, unfolded hex, OF assms(10)]
  have "request_A H TOKEN args s =
     (Inr txHash,
      s\<lparr>x402_nativePaymentData :=
           JObj [(''txHash'', txHash), (''from'', signer), (''to'', opt_get msg ''to''),
                 (''amountWei'', JStr v)],
         outside := e1,
         issued := issued s @
           [ProviderCall
              (JObj [(''method'', JStr ''eth_sendTransaction''),
                     (''params'', JArr [JObj [(''from'', signer), (''to'', opt_get msg ''to''),
                                              (''value'', JStr (''0x'' @ nat_to_radix 16 (radix_val 10 v)))]])])]\<rparr>)"
    using assms(1,2,3,4) b
    by (simp add: request_A_def guarded_A_def assms(7))
  then show ?thesis
    by (simp add: radix_val_nat_to_radix_gen)
qed

lemma mock_eth_call:
  "origRequest (mock_host False) (JObj ((''method'', JStr ''eth_call'') # r)) e
     = (Inr (JStr ''0x0000000000000000000000000000000000000000000000000000000000000005''), Suc e)"
  by (simp add: mock_host_def opt_get_def lookup_def)

lemma mock_sign:
  "origRequest (mock_host b) (JObj ((''method'', JStr ''eth_signTypedData_v4'') # r)) e
     = (Inr (JStr ''0xsig''), Suc e)"
  by (simp add: mock_host_def opt_get_def lookup_def)

lemma mock_send:
  "origRequest (mock_host b) (JObj ((''method'', JStr ''eth_sendTransaction'') # r)) e
     = (Inr (JStr ''0xhash''), Suc e)"
  by (simp add: mock_host_def opt_get_def lookup_def)

theorem permit_conversion_witness:
  "\<not> IS_NATIVE erc20_token
   \<and> typed_data (mock_host False) (sign_call example_erc20) = Inr example_erc20
   \<and> parseInt16 (JStr ''0x0000000000000000000000000000000000000000000000000000000000000005'') = JNum 5
   \<and> request_A (mock_host False) erc20_token (sign_call example_erc20) fresh_page =
     (Inr (JStr ''0xsig''),
      fresh_page\<lparr>x402_eip2612_permit :=
           JObj [(''owner'', JStr ''0xOwner''), (''spender'', JStr ''0xSpender''),
                 (''value'', JStr ''1000000''), (''nonce'', JNum 5),
                 (''deadline'', JStr ''1700003600''), (''signature'', JStr ''0xsig'')],
         x402_eip2612_transfer :=
           JObj [(''from'', JStr ''0xOwner''), (''to'', JStr ''0xSpender''),
                 (''amount'', JStr ''1000000'')],
         outside := 2,
         issued :=
           [ProviderCall
              (JObj [(''method'', JStr ''eth_call''),
                     (''params'', JArr [JObj [(''to'', JStr ''0xToken''),
                                              (''data'', JStr ''0x7ecebe0000000000000000000000000000000000000000000000000000000000000Owner'')],
                                        JStr ''latest''])]),
            ProviderCall
              (JObj [(''method'', JStr ''eth_signTypedData_v4''),
                     (''params'',
                        JArr [JStr ''0xOwner'',
                              JSON_stringify
                                (Permit_typed_data (JStr ''Token'') (JStr ''1'') (JNum 84532)
                                   (JStr ''0xToken'') (JStr ''0xOwner'') (JStr ''0xSpender'')
                                   (JStr ''1000000'') (JNum 5) (JStr ''1700003600''))])])]\<rparr>)
   \<and> request_B (mock_host False) erc20_token (sign_call example_erc20) fresh_page
       = request_A (mock_host False) erc20_token (sign_call example_erc20) fresh_page"
proof -
  have h1: "truthy erc20_token" by (simp add: erc20_token_def)
  have h2: "\<not> IS_NATIVE erc20_token" by code_simp
  have h3: "get (sign_call example_erc20) ''method'' = Inr (JStr ''eth_signTypedData_v4'')"
    by (simp add: sign_call_def lookup_def)
  have h4: "typed_data (mock_host False) (sign_call example_erc20) = Inr example_erc20"
    by code_simp
  have h5: "opt_get example_erc20 ''primaryType'' = JStr ''TransferWithAuthorization''"
    by code_simp
  have h6: "param0 (sign_call example_erc20) = Inr (JStr ''0xOwner'')"
    by code_simp
  have h10: "parseInt16 (JStr ''0x0000000000000000000000000000000000000000000000000000000000000005'') = JNum 5"
    by code_simp
  note t = permit_conversion [OF h1 h2 h3 h4 h5 h6 refl refl mock_eth_call h10 refl mock_sign,
      of fresh_page]
  have pad: "padStart 64 ''Owner'' = ''00000000000000000000000000000000000000000000000000000000000Owner''"
    by code_simp
  have dl: "int_to_radix 10 1700003600 = ''1700003600''"
    by code_simp
  have now: "Date_now (mock_host False) e = 1700000000123" for e
    by (simp add: mock_host_def)
  have o: "outside fresh_page = 0" "issued fresh_page = []"
    by (simp_all add: fresh_page_def)
  show ?thesis
    using t h2 h4 h10
    by (simp add: example_erc20_def erc20_token_def opt_get_def lookup_def jor_def pad dl now o)
qed

theorem native_conversion_witness:
  "IS_NATIVE native_token
   \<and> typed_data (mock_host False) (sign_call example_native) = Inr example_native
   \<and> list_all (is_digit 10) ''2000000000000000000''
   \<and> request_A (mock_host False) native_token (sign_call example_native) fresh_page =
     (Inr (JStr ''0xhash''),
      fresh_page\<lparr>x402_nativePaymentData :=
           JObj [(''txHash'', JStr ''0xhash''), (''from'', JStr ''0xOwner''),
                 (''to'', JStr ''0xRecipient''), (''amountWei'', JStr ''2000000000000000000'')],
         outside := 1,
         issued :=
           [ProviderCall
              (JObj [(''method'', JStr ''eth_sendTransaction''),
                     (''params'', JArr [JObj [(''from'', JStr ''0xOwner''),
                                              (''to'', JStr ''0xRecipient''),
                                              (''value'', JStr ''0x1bc16d674ec80000'')]])])]\<rparr>)
   \<and> radix_val 16 ''1bc16d674ec80000'' = 2000000000000000000"
proof -
  have h1: "IS_NATIVE native_token" by code_simp
  have h2: "get (sign_call example_native) ''method'' = Inr (JStr ''eth_signTypedData_v4'')"
    by (simp add: sign_call_def lookup_def)
  have h3: "typed_data (mock_host False) (sign_call example_native) = Inr example_native"
    by code_simp
  have h4: "opt_get example_native ''primaryType'' = JStr ''TransferWithAuthorization''"
    by code_simp
  have h5: "param0 (sign_call example_native) = Inr (JStr ''0xOwner'')"
    by code_simp
  have h7: "opt_get (jor (opt_get example_native ''message'') (JObj [])) ''value''
              = JStr ''2000000000000000000''"
    by code_simp
  have h8: "''2000000000000000000'' \<noteq> []" by simp
  have h9: "list_all (is_digit 10) ''2000000000000000000''" by code_simp
  note t = native_conversion [OF h1 h2 h3 h4 h5 refl h7 h8 h9 mock_send, of fresh_page]
  have dec: "radix_val 10 ''2000000000000000000'' = 2000000000000000000"
    by code_simp
  have hex: "nat_to_radix 16 2000000000000000000 = ''1bc16d674ec80000''"
    by code_simp
  have o: "outside fresh_page = 0" "issued fresh_page = []"
    by (simp_all add: fresh_page_def)
  show ?thesis
    using t h1 h3 h9
    by (simp add: dec hex example_native_def opt_get_def lookup_def jor_def o)
qed

section \<open>The two scripts compared\<close>

lemma lookup_update: "lookup (AList.update k v ps) k' = (if k' = k then v else lookup ps k')"
  by (simp add: lookup_def update_conv')

lemma set_prop_get:
  "set_prop T k v = Inr T' \<Longrightarrow> opt_get T' k' = (if k' = k then v else opt_get T k')"
  by (cases T) (auto simp: opt_get_def lookup_update)

lemma set_prop_truthy: "set_prop T k v = Inr T' \<Longrightarrow> truthy T'"
  by (cases T) auto

lemma truthy_token: "truthy (jor w default_token)"
  by (simp add: jor_def default_token_def)

lemma load_A_truthy: "load_A w x = Some T \<Longrightarrow> truthy T"
  using truthy_token [of w]
  by (auto simp: load_A_def Let_def split: if_splits sum.splits dest: set_prop_truthy)

lemma load_B_truthy: "load_B w x = Some T \<Longrightarrow> truthy T"
  using truthy_token [of w]
  by (auto simp: load_B_def Let_def split: if_splits sum.splits dest: set_prop_truthy)

lemma load_A_address: "load_A w x = Some T \<Longrightarrow> opt_get T ''address'' = opt_get (jor w default_token) ''address''"
  by (auto simp: load_A_def Let_def split: if_splits sum.splits dest!: set_prop_get [where k' = "''address''"])

lemma load_B_address: "load_B w x = Some T \<Longrightarrow> opt_get T ''address'' = opt_get (jor w default_token) ''address''"
  by (auto simp: load_B_def Let_def split: if_splits sum.splits dest!: set_prop_get [where k' = "''address''"])

lemma load_no_extra:
  assumes "\<not> truthy (opt_get (requirement0 x) ''extra'')"
    and "load_A w x = Some TA" and "load_B w x = Some TB"
  shows "TA = TB"
  using assms by (auto simp: load_A_def load_B_def Let_def split: if_splits)

lemma permit_branch_token:
  assumes "truthy T" and "truthy T'"
    and "opt_get T ''name'' = opt_get T' ''name''"
    and "opt_get T ''version'' = opt_get T' ''version''"
    and "opt_get T ''address'' = opt_get T' ''address''"
  shows "permit_branch H T args data s = permit_branch H T' args data s"
  using assms by (simp add: permit_branch_def get_truthy)

text \<open>
  Claim C10, as amended.  The two scripts merge the descriptor's \<open>extra.name\<close> and
  \<open>extra.version\<close> into the token differently: \<open>part_000\<close> keeps a configured value and
  falls back to the descriptor's and then to the symbol or \<open>1\<close>, \<open>paywall_adapter.js\<close>
  lets a descriptor value replace the configured one.  For a non-native token, whenever
  the two merges leave the same token name and version (as they do when the descriptor
  has no \<open>extra\<close>, which leaves the very same token), the two provider interceptors
  behave alike on every call and state: same calls issued, same result, same artifact
  and transfer intent stored.
\<close>

theorem variants_agree:
  assumes "load_A wtoken x = Some TA" and "load_B wtoken x = Some TB"
    and "\<not> IS_NATIVE TA"
    and "opt_get TA ''name'' = opt_get TB ''name''"
    and "opt_get TA ''version'' = opt_get TB ''version''"
  shows "request_A H TA args s = request_B H TB args s
       \<and> (truthy (opt_get (requirement0 x) ''extra'') \<or> TA = TB)"
proof -
  have a: "opt_get TA ''address'' = opt_get TB ''address''"
    using load_A_address [OF assms(1)] load_B_address [OF assms(2)] by simp
  have "permit_branch H TA args data s = permit_branch H TB args data s" for data
    using load_A_truthy [OF assms(1)] load_B_truthy [OF assms(2)] assms(4,5) a
    by (rule permit_branch_token)
  then have "guarded_B H TA args s = guarded_B H TB args s"
    by (simp add: guarded_B_def split: sum.split)
  then have "request_B H TA args s = request_B H TB args s"
    by (simp add: request_B_def split: sum.split)
  then show ?thesis
    using request_A_non_native [OF assms(3), of H args s] load_no_extra [OF _ assms(1,2)]
    by auto
qed

theorem variants_agree_witness:
  "load_A erc20_token JUndef = Some erc20_token \<and> load_B erc20_token JUndef = Some erc20_token
   \<and> \<not> IS_NATIVE erc20_token
   \<and> request_A (mock_host False) erc20_token (sign_call example_erc20) fresh_page
       = request_B (mock_host False) erc20_token (sign_call example_erc20) fresh_page"
proof -
  have h1: "load_A erc20_token JUndef = Some erc20_token" by code_simp
  have h2: "load_B erc20_token JUndef = Some erc20_token" by code_simp
  have h3: "\<not> IS_NATIVE erc20_token" by code_simp
  from variants_agree [OF h1 h2 h3 refl refl, of "mock_host False" "sign_call example_erc20" fresh_page]
  show ?thesis
    using h1 h2 h3 by simp
qed

text \<open>
  The two merges in conflict: the configuration names the token \<open>Token\<close>, version
  \<open>1\<close>, and the descriptor's \<open>extra\<close> names it \<open>USD Coin\<close>, version \<open>2\<close>.  The
  native-capable script keeps the configured pair, the other takes the descriptor's, and
  the signing requests they issue for the same call differ in the domain.
\<close>

theorem variants_differ:
  "load_A erc20_token example_descriptor = Some erc20_token
   \<and> load_B erc20_token example_descriptor
       = Some (JObj [(''symbol'', JStr ''TKN''), (''address'', JStr ''0xToken''),
                     (''decimals'', JNum 18), (''name'', JStr ''USD Coin''),
                     (''version'', JStr ''2'')])
   \<and> \<not> IS_NATIVE erc20_token
   \<and> issued (snd (request_A (mock_host False) erc20_token (sign_call example_erc20) fresh_page)) ! 1
       = ProviderCall
           (JObj [(''method'', JStr ''eth_signTypedData_v4''),
                  (''params'',
                     JArr [JStr ''0xOwner'',
                           JSON_stringify
                             (Permit_typed_data (JStr ''Token'') (JStr ''1'') (JNum 84532)
                                (JStr ''0xToken'') (JStr ''0xOwner'') (JStr ''0xSpender'')
                                (JStr ''1000000'') (JNum 5) (JStr ''1700003600''))])])
   \<and> issued (snd (request_B (mock_host False)
                     (JObj [(''symbol'', JStr ''TKN''), (''address'', JStr ''0xToken''),
                            (''decimals'', JNum 18), (''name'', JStr ''USD Coin''),
                            (''version'', JStr ''2'')])
                     (sign_call example_erc20) fresh_page)) ! 1
       = ProviderCall
           (JObj [(''method'', JStr ''eth_signTypedData_v4''),
                  (''params'',
                     JArr [JStr ''0xOwner'',
                           JSON_stringify
                             (Permit_typed_data (JStr ''USD Coin'') (JStr ''2'') (JNum 84532)
                                (JStr ''0xToken'') (JStr ''0xOwner'') (JStr ''0xSpender'')
                                (JStr ''1000000'') (JNum 5) (JStr ''1700003600''))])])
   \<and> request_A (mock_host False) erc20_token (sign_call example_erc20) fresh_page
       \<noteq> request_B (mock_host False)
            (JObj [(''symbol'', JStr ''TKN''), (''address'', JStr ''0xToken''),
                   (''decimals'', JNum 18), (''name'', JStr ''USD Coin''),
                   (''version'', JStr ''2'')])
            (sign_call example_erc20) fresh_page"
  by code_simp

section \<open>The network interceptor and the artifact slots\<close>


lemma truthy_xpay_cases:
  assumes "truthy (jor (opt_get h k1) (opt_get h k2))"
  shows "(\<exists>ps. h = JObj ps) \<or> (\<exists>ps hs. h = JHeaders ps hs)"
  using assms by (cases h) (simp_all add: opt_get_def jor_def)

lemma truthy_opt_get_cases:
  assumes "truthy (opt_get v k)"
  shows "(\<exists>ps. v = JObj ps) \<or> (\<exists>ps hs. v = JHeaders ps hs)"
  using assms by (cases v) (simp_all add: opt_get_def)

lemma write_put:
  assumes "h = opt_get (arg1 args) ''headers''"
    and "truthy (jor (opt_get h k1) (opt_get h k2))"
  shows "res_bind (write_header h encoded) (\<lambda>h'. res_bind (put_headers args h') (\<lambda>args'. Inr (args', s')))
           = Inr (with_payment_header args encoded, s')"
proof -
  have t: "truthy h"
    using truthy_xpay_cases [OF assms(2)] by auto
  have w: "write_header h encoded = Inr (set_payment_header h encoded)"
    using truthy_xpay_cases [OF assms(2)] by (auto simp: set_payment_header_def)
  have a1: "(\<exists>ips. arg1 args = JObj ips \<and> lookup ips ''headers'' = h)
          \<or> (\<exists>ips hs. arg1 args = JHeaders ips hs \<and> lookup ips ''headers'' = h)"
    using truthy_opt_get_cases [of "arg1 args" "''headers''"] t assms(1)
    by (auto simp: opt_get_def)
  show ?thesis
    unfolding w res_bind_Inr
    using a1 by (auto simp: put_headers_def with_payment_header_def)
qed

lemma adapt_A_eq:
  "adapt_A TOKEN args s =
     (let h = opt_get (arg1 args) ''headers'' in
      if truthy h \<and> truthy (jor (opt_get h ''X-PAYMENT'') (opt_get h ''x-payment'')) then
        if IS_NATIVE TOKEN \<and> truthy (x402_nativePaymentData s) then
          Inr (with_payment_header args
                 (btoa (to_str (JSON_stringify
                    (native_payload (network_of (x402 s))
                       (opt_get (x402_nativePaymentData s) ''txHash'')
                       (opt_get (x402_nativePaymentData s) ''from'')
                       (opt_get (x402_nativePaymentData s) ''to'')
                       (opt_get (x402_nativePaymentData s) ''amountWei''))))),
               s\<lparr>x402_nativePaymentData := JNull\<rparr>)
        else if truthy (x402_eip2612_permit s) then
          Inr (with_payment_header args
                 (btoa (to_str (JSON_stringify
                    (exact_payload (network_of (x402 s)) (x402_eip2612_permit s)
                       (x402_eip2612_transfer s))))),
               s\<lparr>x402_eip2612_permit := JUndef, x402_eip2612_transfer := JUndef\<rparr>)
        else Inr (args, s)
      else Inr (args, s))"
proof (cases "truthy (opt_get (arg1 args) ''headers'')")
  case False
  then show ?thesis by (simp add: adapt_A_def)
next
  case h: True
  show ?thesis
  proof (cases "truthy (jor (opt_get (opt_get (arg1 args) ''headers'') ''X-PAYMENT'')
                           (opt_get (opt_get (arg1 args) ''headers'') ''x-payment''))")
    case False
    then show ?thesis using h by (simp add: adapt_A_def get_truthy Let_def)
  next
    case x: True
    note wp = write_put [OF refl x]
    show ?thesis
      using h x
      by (simp add: adapt_A_def get_truthy Let_def wp)
  qed
qed

lemma adapt_B_eq:
  "adapt_B args s =
     (let h = opt_get (arg1 args) ''headers'' in
      if truthy h \<and> truthy (jor (opt_get h ''X-PAYMENT'') (opt_get h ''x-payment''))
         \<and> truthy (x402_eip2612_permit s) then
        Inr (with_payment_header args
               (btoa (to_str (JSON_stringify
                  (exact_payload (network_of (x402 s)) (x402_eip2612_permit s)
                     (x402_eip2612_transfer s))))),
             s\<lparr>x402_eip2612_permit := JUndef, x402_eip2612_transfer := JUndef\<rparr>)
      else Inr (args, s))"
proof (cases "truthy (opt_get (arg1 args) ''headers'')")
  case False
  then show ?thesis by (simp add: adapt_B_def)
next
  case h: True
  show ?thesis
  proof (cases "truthy (jor (opt_get (opt_get (arg1 args) ''headers'') ''X-PAYMENT'')
                           (opt_get (opt_get (arg1 args) ''headers'') ''x-payment''))")
    case False
    then show ?thesis using h by (simp add: adapt_B_def get_truthy Let_def)
  next
    case x: True
    note wp = write_put [OF refl x]
    show ?thesis
      using h x
      by (simp add: adapt_B_def get_truthy Let_def wp)
  qed
qed










lemma exact_payload_eq:
  "exact_payload (network_of x) p t =
     JObj [(''x402Version'', JNum 1), (''scheme'', JStr ''exact''),
           (''network'', jor (opt_get (requirement0 x) ''network'') (JStr ''base-sepolia'')),
           (''payload'', JObj [(''permit'', p), (''transfer'', t)])]"
  by (simp add: exact_payload_def network_of_def)

lemma native_payload_eq:
  "native_payload (network_of x) a b c d =
     JObj [(''x402Version'', JNum 1), (''scheme'', JStr ''native''),
           (''network'', jor (opt_get (requirement0 x) ''network'') (JStr ''base-sepolia'')),
           (''payload'', JObj [(''txHash'', a), (''from'', b), (''to'', c), (''amountWei'', d)])]"
  by (simp add: native_payload_def network_of_def)

lemma truthy_jor: "truthy (jor a b) \<longleftrightarrow> truthy a \<or> truthy b"
  by (simp add: jor_def)


text \<open>
  Claim C6, as amended.  For a request whose \<open>args[1].headers\<close> is a plain header map,
  the wrapped \<open>fetch\<close> substitutes the header exactly when the map holds a non-empty
  value under the key spelled \<open>X-PAYMENT\<close> or under the key spelled \<open>x-payment\<close> and an
  artifact is pending: in \<open>part_000\<close> the native artifact of a native token, sent with
  scheme \<open>native\<close>, or else the permit artifact, sent with scheme \<open>exact\<close>; in
  \<open>paywall_adapter.js\<close> the permit artifact.  Every other such request is handed to the
  original as it came, with the state as it was.
\<close>

theorem header_detection:
  assumes "opt_get (arg1 args) ''headers'' = JObj ps"
  shows "fetch_A H TOKEN args s =
           (if (truthy (lookup ps ''X-PAYMENT'') \<or> truthy (lookup ps ''x-payment''))
                \<and> IS_NATIVE TOKEN \<and> truthy (x402_nativePaymentData s)
            then call_fetch H
                   (with_payment_header args
                      (btoa (to_str (JSON_stringify
                         (JObj [(''x402Version'', JNum 1), (''scheme'', JStr ''native''),
                                (''network'', jor (opt_get (requirement0 (x402 s)) ''network'')
                                                 (JStr ''base-sepolia'')),
                                (''payload'',
                                   JObj [(''txHash'', opt_get (x402_nativePaymentData s) ''txHash''),
                                         (''from'', opt_get (x402_nativePaymentData s) ''from''),
                                         (''to'', opt_get (x402_nativePaymentData s) ''to''),
                                         (''amountWei'', opt_get (x402_nativePaymentData s) ''amountWei'')])])))))
                   (s\<lparr>x402_nativePaymentData := JNull\<rparr>)
            else if (truthy (lookup ps ''X-PAYMENT'') \<or> truthy (lookup ps ''x-payment''))
                     \<and> truthy (x402_eip2612_permit s)
            then call_fetch H
                   (with_payment_header args
                      (btoa (to_str (JSON_stringify
                         (JObj [(''x402Version'', JNum 1), (''scheme'', JStr ''exact''),
                                (''network'', jor (opt_get (requirement0 (x402 s)) ''network'')
                                                 (JStr ''base-sepolia'')),
                                (''payload'', JObj [(''permit'', x402_eip2612_permit s),
                                                    (''transfer'', x402_eip2612_transfer s)])])))))
                   (s\<lparr>x402_eip2612_permit := JUndef, x402_eip2612_transfer := JUndef\<rparr>)
            else call_fetch H args s)
       \<and> fetch_B H args s =
           (if (truthy (lookup ps ''X-PAYMENT'') \<or> truthy (lookup ps ''x-payment''))
                \<and> truthy (x402_eip2612_permit s)
            then call_fetch H
                   (with_payment_header args
                      (btoa (to_str (JSON_stringify
                         (JObj [(''x402Version'', JNum 1), (''scheme'', JStr ''exact''),
                                (''network'', jor (opt_get (requirement0 (x402 s)) ''network'')
                                                 (JStr ''base-sepolia'')),
                                (''payload'', JObj [(''permit'', x402_eip2612_permit s),
                                                    (''transfer'', x402_eip2612_transfer s)])])))))
                   (s\<lparr>x402_eip2612_permit := JUndef, x402_eip2612_transfer := JUndef\<rparr>)
            else call_fetch H args s)"
proof -
  have k: "opt_get (JObj ps) k = lookup ps k" for k
    by (simp add: opt_get_def)
  show ?thesis
    by (simp add: fetch_A_def fetch_B_def adapt_A_eq adapt_B_eq Let_def assms k truthy_jor
        exact_payload_eq native_payload_eq)
qed




theorem header_detection_witness:
  "opt_get (arg1 (paying_request ''x-payment'')) ''headers'' = JObj [(''x-payment'', JStr ''placeholder'')]
   \<and> fetch_A (mock_host False) erc20_token (paying_request ''x-payment'') signed_page =
       call_fetch (mock_host False)
         [JStr ''https://example.test/premium'',
          JObj [(''method'', JStr ''GET''),
                (''headers'',
                   JObj [(''x-payment'', JStr ''placeholder''),
                         (''X-PAYMENT'',
                          JStr (btoa (to_str (JSON_stringify
                            (JObj [(''x402Version'', JNum 1), (''scheme'', JStr ''exact''),
                                   (''network'', JStr ''base-sepolia''),
                                   (''payload'',
                                      JObj [(''permit'', x402_eip2612_permit signed_page),
                                            (''transfer'', x402_eip2612_transfer signed_page)])])))))])]]
         (signed_page\<lparr>x402_eip2612_permit := JUndef, x402_eip2612_transfer := JUndef\<rparr>)
   \<and> fetch_B (mock_host False) (paying_request ''x-payment'') fresh_page
       = call_fetch (mock_host False) (paying_request ''x-payment'') fresh_page"
proof -
  have h: "opt_get (arg1 (paying_request ''x-payment'')) ''headers''
             = JObj [(''x-payment'', JStr ''placeholder'')]"
    by code_simp
  note t1 = header_detection [OF h, of "mock_host False" erc20_token signed_page]
  note t2 = header_detection [OF h, of "mock_host False" erc20_token fresh_page]
  have n: "\<not> IS_NATIVE erc20_token" by code_simp
  have p: "truthy (x402_eip2612_permit signed_page)" by code_simp
  have q: "\<not> truthy (x402_eip2612_permit fresh_page)" by code_simp
  have net: "jor (opt_get (requirement0 (x402 signed_page)) ''network'') (JStr ''base-sepolia'')
               = JStr ''base-sepolia''"
    by code_simp
  have w: "with_payment_header (paying_request ''x-payment'') enc =
             [JStr ''https://example.test/premium'',
              JObj [(''method'', JStr ''GET''),
                    (''headers'', JObj [(''x-payment'', JStr ''placeholder''),
                                        (''X-PAYMENT'', JStr enc)])]]" for enc
    by (simp add: with_payment_header_def paying_request_def arg1_def lookup_def
        set_payment_header_def)
  have a: "fetch_A (mock_host False) erc20_token (paying_request ''x-payment'') signed_page =
       call_fetch (mock_host False)
         [JStr ''https://example.test/premium'',
          JObj [(''method'', JStr ''GET''),
                (''headers'',
                   JObj [(''x-payment'', JStr ''placeholder''),
                         (''X-PAYMENT'',
                          JStr (btoa (to_str (JSON_stringify
                            (JObj [(''x402Version'', JNum 1), (''scheme'', JStr ''exact''),
                                   (''network'', JStr ''base-sepolia''),
                                   (''payload'',
                                      JObj [(''permit'', x402_eip2612_permit signed_page),
                                            (''transfer'', x402_eip2612_transfer signed_page)])])))))])]]
         (signed_page\<lparr>x402_eip2612_permit := JUndef, x402_eip2612_transfer := JUndef\<rparr>)"
    using t1 n p by (simp add: lookup_def net w)
  have b: "fetch_B (mock_host False) (paying_request ''x-payment'') fresh_page
       = call_fetch (mock_host False) (paying_request ''x-payment'') fresh_page"
    using t2 q by simp
  show ?thesis
    using h a b by (intro conjI)
qed

text \<open>
  Two requests that carry the payment header and are not substituted: one spells the
  key \<open>X-Payment\<close> while a permit is stored, the other spells it \<open>X-PAYMENT\<close> while
  nothing is stored.  Both are handed on as they came.
\<close>

theorem header_detection_counterexample:
  "carries_payment_header (JObj [(''X-Payment'', JStr ''placeholder'')])
   \<and> opt_get (arg1 (paying_request ''X-Payment'')) ''headers'' = JObj [(''X-Payment'', JStr ''placeholder'')]
   \<and> truthy (x402_eip2612_permit signed_page)
   \<and> fetch_A (mock_host False) erc20_token (paying_request ''X-Payment'') signed_page
       = call_fetch (mock_host False) (paying_request ''X-Payment'') signed_page
   \<and> fetch_B (mock_host False) (paying_request ''X-Payment'') signed_page
       = call_fetch (mock_host False) (paying_request ''X-Payment'') signed_page
   \<and> carries_payment_header (JObj [(''X-PAYMENT'', JStr ''placeholder'')])
   \<and> opt_get (arg1 (paying_request ''X-PAYMENT'')) ''headers'' = JObj [(''X-PAYMENT'', JStr ''placeholder'')]
   \<and> fetch_A (mock_host False) erc20_token (paying_request ''X-PAYMENT'') fresh_page
       = call_fetch (mock_host False) (paying_request ''X-PAYMENT'') fresh_page
   \<and> fetch_B (mock_host False) (paying_request ''X-PAYMENT'') fresh_page
       = call_fetch (mock_host False) (paying_request ''X-PAYMENT'') fresh_page"
  by code_simp

text \<open>
  A native \<open>Headers\<close> collection that holds the placeholder as a header, not as a
  property, passes both scripts untouched although the writing step has a branch for it:
  the bracket access reads properties only.
\<close>

lemma headers_instance_passes:
  "carries_payment_header (JHeaders [] [(''X-PAYMENT'', ''placeholder'')])
   \<and> fetch_A H TOKEN [url, JObj [(''headers'', JHeaders [] [(''X-PAYMENT'', ''placeholder'')])]] s
       = call_fetch H [url, JObj [(''headers'', JHeaders [] [(''X-PAYMENT'', ''placeholder'')])]] s
   \<and> fetch_B H [url, JObj [(''headers'', JHeaders [] [(''X-PAYMENT'', ''placeholder'')])]] s
       = call_fetch H [url, JObj [(''headers'', JHeaders [] [(''X-PAYMENT'', ''placeholder'')])]] s"
proof -
  have "carries_payment_header (JHeaders [] [(''X-PAYMENT'', ''placeholder'')])"
    by code_simp
  then show ?thesis
    by (simp add: fetch_A_def fetch_B_def adapt_A_eq adapt_B_eq Let_def arg1_def opt_get_def
        lookup_def jor_def)
qed

end
